theory Spec2Isabelle
  imports Main
begin

section \<open>Data model\<close>

text \<open>
  String literals of the source are written here without their accents
  (\<^verbatim>\<open>Joao\<close>, \<^verbatim>\<open>Adaptacao\<close>).
\<close>

text \<open>
  The entity types of \<^verbatim>\<open>src/lib/storage.ts\<close> (\<^verbatim>\<open>User\<close>, \<^verbatim>\<open>Student\<close>,
  \<^verbatim>\<open>Adaptation\<close>, \<^verbatim>\<open>Report\<close>) as records. Field names carry a one-letter prefix
  because record fields are global constants. An optional field (\<^verbatim>\<open>guardianName?\<close>,
  \<^verbatim>\<open>updatedAt?\<close>) is an \<open>option\<close>; \<open>None\<close> stands for a key that is absent or
  \<^verbatim>\<open>undefined\<close>, which \<^verbatim>\<open>JSON.stringify\<close> does not tell apart.
\<close>

datatype role = coordenador | professor

datatype report_result = positivo | neutro | negativo

record user =
  u_id :: string
  u_email :: string
  u_name :: string
  u_role :: role

record student =
  s_id :: string
  s_name :: string
  s_course :: string
  s_class :: string
  s_birthDate :: string
  s_registrationNumber :: string
  s_guardianName :: "string option"
  s_guardianContact :: "string option"
  s_createdAt :: string
  s_createdBy :: string
  s_updatedAt :: "string option"
  s_updatedBy :: "string option"

record adaptation =
  a_id :: string
  a_studentId :: string
  a_description :: string
  a_justification :: string
  a_date :: string
  a_createdAt :: string
  a_createdBy :: string
  a_updatedAt :: "string option"

record report =
  r_id :: string
  r_studentId :: string
  r_teacherId :: string
  r_teacherName :: string
  r_subject :: string
  r_date :: string
  r_result :: report_result
  r_description :: string
  r_createdAt :: string
  r_updatedAt :: "string option"

text \<open>
  Values that come from outside the typed code (a response body, an \<^verbatim>\<open>any\<close>) are JSON
  values. An object lists its keys in order; numbers are integers here.
\<close>

datatype json =
  JNull | JBool bool | JNum int | JStr string | JArr "json list" | JObj "(string \<times> json) list"

text \<open>
  \<^verbatim>\<open>Partial<T>\<close>: every key may be missing. \<open>None\<close> is a key the object literal does
  not have, \<open>Some v\<close> a key with value \<open>v\<close>. The forms pass \<^verbatim>\<open>id: (res as any).id\<close>,
  so an \<^verbatim>\<open>id\<close> key holds whatever the response had.
\<close>

record student_partial =
  ps_id :: "json option"
  ps_name :: "string option"
  ps_course :: "string option"
  ps_class :: "string option"
  ps_birthDate :: "string option"
  ps_registrationNumber :: "string option"
  ps_guardianName :: "string option"
  ps_guardianContact :: "string option"
  ps_createdAt :: "string option"
  ps_createdBy :: "string option"
  ps_updatedAt :: "string option"
  ps_updatedBy :: "string option"

record adaptation_partial =
  pa_id :: "json option"
  pa_studentId :: "string option"
  pa_description :: "string option"
  pa_justification :: "string option"
  pa_date :: "string option"
  pa_createdAt :: "string option"
  pa_createdBy :: "string option"
  pa_updatedAt :: "string option"

record report_partial =
  pr_id :: "json option"
  pr_studentId :: "string option"
  pr_teacherId :: "string option"
  pr_teacherName :: "string option"
  pr_subject :: "string option"
  pr_date :: "string option"
  pr_result :: "report_result option"
  pr_description :: "string option"
  pr_createdAt :: "string option"
  pr_updatedAt :: "string option"

section \<open>The browser's localStorage\<close>

text \<open>
  What \<^verbatim>\<open>localStorage.getItem(key)\<close> returns is \<open>None\<close> (\<^verbatim>\<open>null\<close>, no such key) or
  a string. The string is the empty string, a text \<^verbatim>\<open>JSON.parse\<close> rejects, or the
  text \<^verbatim>\<open>JSON.stringify(v)\<close> wrote, which \<^verbatim>\<open>JSON.parse\<close> reads back as \<open>v\<close>.
  The value is typed as the source types it (\<^verbatim>\<open>getFromStorage<Student[]>\<close>).
\<close>

datatype 'a item = EmptyString | Malformed | Stringified 'a

datatype js_error =
  SyntaxError | TypeError string | RangeError string | Error string | HttpError nat string

fun message :: "js_error \<Rightarrow> string" where
  "message SyntaxError = ''Unexpected token''"
| "message (TypeError m) = m"
| "message (RangeError m) = m"
| "message (Error m) = m"
| "message (HttpError st m) = m"

text \<open>\<^verbatim>\<open>err?.status\<close>: only the errors \<^verbatim>\<open>apiFetch\<close> builds carry a status.\<close>

fun status :: "js_error \<Rightarrow> nat option" where
  "status (HttpError st m) = Some st"
| "status e = None"

fun JSON_parse :: "'a item \<Rightarrow> js_error + 'a" where
  "JSON_parse EmptyString = Inl SyntaxError"
| "JSON_parse Malformed = Inl SyntaxError"
| "JSON_parse (Stringified v) = Inr v"

text \<open>
  The state of the page: the seven localStorage keys the code uses, and the two sources
  of nondeterminism, the clock and the random generator. \<open>idSource w n\<close> is what
  \<^verbatim>\<open>generateId()\<close> returns and \<open>clock w n\<close> what \<^verbatim>\<open>new Date().toISOString()\<close>
  returns when it is the \<open>n\<close>-th reading of the environment; \<open>tick\<close> counts the
  readings.
\<close>

record world =
  users_item :: "user list item option"
  students_item :: "student list item option"
  adaptations_item :: "adaptation list item option"
  reports_item :: "report list item option"
  current_user_item :: "user option item option"
  token_item :: "string option"
  user_item :: "user item option"
  tick :: nat
  idSource :: "nat \<Rightarrow> string"
  clock :: "nat \<Rightarrow> string"

definition getFromStorage :: "'a item option \<Rightarrow> 'a \<Rightarrow> 'a" where
  "getFromStorage got defaultValue =
     (case got of
        None \<Rightarrow> defaultValue
      | Some EmptyString \<Rightarrow> defaultValue
      | Some text \<Rightarrow> (case JSON_parse text of Inl e \<Rightarrow> defaultValue | Inr v \<Rightarrow> v))"

definition setToStorage :: "'a \<Rightarrow> 'a item option" where
  "setToStorage v = Some (Stringified v)"

definition generateId :: "world \<Rightarrow> string \<times> world" where
  "generateId w = (idSource w (tick w), w\<lparr>tick := Suc (tick w)\<rparr>)"

definition nowISO :: "world \<Rightarrow> string \<times> world" where
  "nowISO w = (clock w (tick w), w\<lparr>tick := Suc (tick w)\<rparr>)"

text \<open>\<^verbatim>\<open>s.split('T')[0]\<close>: the text before the first \<^verbatim>\<open>T\<close>.\<close>

definition splitT0 :: "string \<Rightarrow> string" where
  "splitT0 s = takeWhile (\<lambda>c. c \<noteq> CHR ''T'') s"

text \<open>\<^verbatim>\<open>x || d\<close> on an optional string: an absent or empty \<open>x\<close> gives \<open>d\<close>.\<close>

fun orElse :: "string option \<Rightarrow> string \<Rightarrow> string" where
  "orElse None d = d"
| "orElse (Some s) d = (if s = [] then d else s)"

text \<open>
  Object spread \<^verbatim>\<open>{...old, ...updates}\<close>, field by field: a key of \<open>updates\<close>
  replaces the old value, a missing key keeps it.
\<close>

fun spread :: "'a \<Rightarrow> 'a option \<Rightarrow> 'a" where
  "spread old None = old"
| "spread old (Some v) = v"

fun spreadOpt :: "'a option \<Rightarrow> 'a option \<Rightarrow> 'a option" where
  "spreadOpt old None = old"
| "spreadOpt old (Some v) = Some v"

text \<open>\<^verbatim>\<open>xs.findIndex(p)\<close>, with \<open>None\<close> for \<^verbatim>\<open>-1\<close>.\<close>

fun findIndex :: "('a \<Rightarrow> bool) \<Rightarrow> 'a list \<Rightarrow> nat option" where
  "findIndex p [] = None"
| "findIndex p (x # xs) =
     (if p x then Some 0 else (case findIndex p xs of None \<Rightarrow> None | Some i \<Rightarrow> Some (Suc i)))"

section \<open>Seeding\<close>

definition initializeDefaultUsers :: "world \<Rightarrow> world" where
  "initializeDefaultUsers w =
     (let users = getFromStorage (users_item w) [] in
      if length users = 0 then
        (case generateId w of (id1, w1) \<Rightarrow>
         case generateId w1 of (id2, w2) \<Rightarrow>
           let defaultUsers =
             [\<lparr>u_id = id1, u_email = ''coordenador@escola.com'', u_name = ''Maria Silva'',
               u_role = coordenador\<rparr>,
              \<lparr>u_id = id2, u_email = ''professor@escola.com'', u_name = ''Joao Santos'',
               u_role = professor\<rparr>]
           in w2\<lparr>users_item := setToStorage defaultUsers\<rparr>)
      else w)"

text \<open>\<^verbatim>\<open>coordinator?.id || ''\<close>.\<close>

definition idOrEmpty :: "user option \<Rightarrow> string" where
  "idOrEmpty u = (case u of None \<Rightarrow> [] | Some x \<Rightarrow> u_id x)"

definition initializeDefaultData :: "world \<Rightarrow> world" where
  "initializeDefaultData w =
     (let students = getFromStorage (students_item w) [] in
      if length students > 0 then w
      else
        let users = getFromStorage (users_item w) [];
            coordinator = find (\<lambda>u. u_role u = coordenador) users;
            professor' = find (\<lambda>u. u_role u = professor) users
        in
        case generateId w of (sid1, w1) \<Rightarrow>
        case nowISO w1 of (created1, w2) \<Rightarrow>
        case generateId w2 of (sid2, w3) \<Rightarrow>
        case nowISO w3 of (created2, w4) \<Rightarrow>
          let sampleStudents =
            [\<lparr>s_id = sid1, s_name = ''Ana Pereira'', s_course = ''Ensino Medio'',
              s_class = ''2A'', s_birthDate = ''2006-05-12'',
              s_registrationNumber = ''2021001'', s_guardianName = Some ''Carlos Pereira'',
              s_guardianContact = Some ''11999998888'', s_createdAt = created1,
              s_createdBy = idOrEmpty coordinator, s_updatedAt = None, s_updatedBy = None\<rparr>,
             \<lparr>s_id = sid2, s_name = ''Bruno Costa'', s_course = ''Ensino Medio'',
              s_class = ''2B'', s_birthDate = ''2005-08-20'',
              s_registrationNumber = ''2021002'', s_guardianName = Some ''Mariana Costa'',
              s_guardianContact = Some ''11988887777'', s_createdAt = created2,
              s_createdBy = idOrEmpty coordinator, s_updatedAt = None, s_updatedBy = None\<rparr>];
              w5 = w4\<lparr>students_item := setToStorage sampleStudents\<rparr>;
              adaptations = getFromStorage (adaptations_item w5) []
          in
          case generateId w5 of (aid, w6) \<Rightarrow>
          case nowISO w6 of (adate, w7) \<Rightarrow>
          case nowISO w7 of (acreated, w8) \<Rightarrow>
            let adaptations' = adaptations @
                  [\<lparr>a_id = aid, a_studentId = s_id (hd sampleStudents),
                    a_description = ''Tempo extra para provas'',
                    a_justification = ''Necessidade de processamento mais lento'',
                    a_date = splitT0 adate, a_createdAt = acreated,
                    a_createdBy = idOrEmpty coordinator, a_updatedAt = None\<rparr>];
                w9 = w8\<lparr>adaptations_item := setToStorage adaptations'\<rparr>;
                reports = getFromStorage (reports_item w9) []
            in
            case generateId w9 of (rid, w10) \<Rightarrow>
            case nowISO w10 of (rdate, w11) \<Rightarrow>
            case nowISO w11 of (rcreated, w12) \<Rightarrow>
              let reports' = reports @
                    [\<lparr>r_id = rid, r_studentId = s_id (hd sampleStudents),
                      r_teacherId = idOrEmpty professor',
                      r_teacherName =
                        (case professor' of None \<Rightarrow> ''Joao Santos''
                         | Some p \<Rightarrow> orElse (Some (u_name p)) ''Joao Santos''),
                      r_subject = ''Matematica'', r_date = splitT0 rdate,
                      r_result = neutro,
                      r_description = ''Observacoes sobre rendimento'',
                      r_createdAt = rcreated, r_updatedAt = None\<rparr>]
              in w12\<lparr>reports_item := setToStorage reports'\<rparr>)"

section \<open>Local Record Store\<close>

definition getLocalUsers :: "world \<Rightarrow> user list" where
  "getLocalUsers w = getFromStorage (users_item w) []"

subsection \<open>authStorage\<close>

definition validCredentials :: "(string \<times> string) list" where
  "validCredentials =
     [(''coordenador@escola.com'', ''coord123''), (''professor@escola.com'', ''prof123'')]"

definition authStorage_signIn :: "string \<Rightarrow> string \<Rightarrow> world \<Rightarrow> user option \<times> world" where
  "authStorage_signIn email password w =
     (let users = getFromStorage (users_item w) [];
          isValid = list_ex (\<lambda>cred. fst cred = email \<and> snd cred = password) validCredentials
      in
      if \<not> isValid then (None, w)
      else
        (case find (\<lambda>u. u_email u = email) users of
           Some user \<Rightarrow> (Some user, w\<lparr>current_user_item := setToStorage (Some user)\<rparr>)
         | None \<Rightarrow> (None, w)))"

definition authStorage_signOut :: "world \<Rightarrow> world" where
  "authStorage_signOut w = w\<lparr>current_user_item := None\<rparr>"

definition authStorage_getCurrentUser :: "world \<Rightarrow> user option" where
  "authStorage_getCurrentUser w = getFromStorage (current_user_item w) None"

subsection \<open>studentStorage\<close>

definition studentStorage_getAll :: "world \<Rightarrow> student list" where
  "studentStorage_getAll w = getFromStorage (students_item w) []"

definition studentStorage_getById :: "string \<Rightarrow> world \<Rightarrow> student option" where
  "studentStorage_getById id' w =
     (let students = studentStorage_getAll w in find (\<lambda>s. s_id s = id') students)"

definition studentStorage_create :: "student_partial \<Rightarrow> world \<Rightarrow> student \<times> world" where
  "studentStorage_create data' w =
     (let students = studentStorage_getAll w;
          currentUser = authStorage_getCurrentUser w
      in
      case generateId w of (newId, w1) \<Rightarrow>
      case nowISO w1 of (created, w2) \<Rightarrow>
        let newStudent =
          \<lparr>s_id = newId,
           s_name = orElse (ps_name data') [],
           s_course = orElse (ps_course data') [],
           s_class = orElse (ps_class data') [],
           s_birthDate = orElse (ps_birthDate data') [],
           s_registrationNumber = orElse (ps_registrationNumber data') [],
           s_guardianName = ps_guardianName data',
           s_guardianContact = ps_guardianContact data',
           s_createdAt = created,
           s_createdBy = idOrEmpty currentUser,
           s_updatedAt = None, s_updatedBy = None\<rparr>
        in (newStudent, w2\<lparr>students_item := setToStorage (students @ [newStudent])\<rparr>))"

definition studentStorage_update ::
  "string \<Rightarrow> student_partial \<Rightarrow> world \<Rightarrow> student option \<times> world" where
  "studentStorage_update id' updates w =
     (let students = studentStorage_getAll w in
      case findIndex (\<lambda>s. s_id s = id') students of
        None \<Rightarrow> (None, w)
      | Some index \<Rightarrow>
          let currentUser = authStorage_getCurrentUser w;
              old = students ! index
          in
          case nowISO w of (now, w1) \<Rightarrow>
            let updated =
              \<lparr>s_id = id',
               s_name = spread (s_name old) (ps_name updates),
               s_course = spread (s_course old) (ps_course updates),
               s_class = spread (s_class old) (ps_class updates),
               s_birthDate = spread (s_birthDate old) (ps_birthDate updates),
               s_registrationNumber =
                 spread (s_registrationNumber old) (ps_registrationNumber updates),
               s_guardianName = spreadOpt (s_guardianName old) (ps_guardianName updates),
               s_guardianContact =
                 spreadOpt (s_guardianContact old) (ps_guardianContact updates),
               s_createdAt = spread (s_createdAt old) (ps_createdAt updates),
               s_createdBy = spread (s_createdBy old) (ps_createdBy updates),
               s_updatedAt = Some now,
               s_updatedBy = map_option u_id currentUser\<rparr>;
                students' = students[index := updated]
            in (Some (students' ! index), w1\<lparr>students_item := setToStorage students'\<rparr>))"

subsection \<open>adaptationStorage\<close>

definition adaptationStorage_getAll :: "world \<Rightarrow> adaptation list" where
  "adaptationStorage_getAll w = getFromStorage (adaptations_item w) []"

definition adaptationStorage_getByStudent :: "string \<Rightarrow> world \<Rightarrow> adaptation list" where
  "adaptationStorage_getByStudent studentId w =
     (let adaptations = adaptationStorage_getAll w
      in filter (\<lambda>a. a_studentId a = studentId) adaptations)"

definition adaptationStorage_create ::
  "adaptation_partial \<Rightarrow> world \<Rightarrow> adaptation \<times> world" where
  "adaptationStorage_create data' w =
     (let adaptations = adaptationStorage_getAll w;
          currentUser = authStorage_getCurrentUser w
      in
      case generateId w of (newId, w1) \<Rightarrow>
      case (if orElse (pa_date data') [] = [] then
              (case nowISO w1 of (today, w2) \<Rightarrow> (splitT0 today, w2))
            else (orElse (pa_date data') [], w1)) of (date, w2) \<Rightarrow>
      case nowISO w2 of (created, w3) \<Rightarrow>
        let newAdaptation =
          \<lparr>a_id = newId,
           a_studentId = orElse (pa_studentId data') [],
           a_description = orElse (pa_description data') [],
           a_justification = orElse (pa_justification data') [],
           a_date = date,
           a_createdAt = created,
           a_createdBy = idOrEmpty currentUser,
           a_updatedAt = None\<rparr>
        in (newAdaptation,
            w3\<lparr>adaptations_item := setToStorage (adaptations @ [newAdaptation])\<rparr>))"

definition adaptationStorage_update ::
  "string \<Rightarrow> adaptation_partial \<Rightarrow> world \<Rightarrow> adaptation option \<times> world" where
  "adaptationStorage_update id' updates w =
     (let adaptations = adaptationStorage_getAll w in
      case findIndex (\<lambda>a. a_id a = id') adaptations of
        None \<Rightarrow> (None, w)
      | Some index \<Rightarrow>
          let old = adaptations ! index in
          case nowISO w of (now, w1) \<Rightarrow>
            let updated =
              \<lparr>a_id = id',
               a_studentId = spread (a_studentId old) (pa_studentId updates),
               a_description = spread (a_description old) (pa_description updates),
               a_justification = spread (a_justification old) (pa_justification updates),
               a_date = spread (a_date old) (pa_date updates),
               a_createdAt = spread (a_createdAt old) (pa_createdAt updates),
               a_createdBy = spread (a_createdBy old) (pa_createdBy updates),
               a_updatedAt = Some now\<rparr>;
                adaptations' = adaptations[index := updated]
            in (Some (adaptations' ! index),
                w1\<lparr>adaptations_item := setToStorage adaptations'\<rparr>))"

definition adaptationStorage_delete :: "string \<Rightarrow> world \<Rightarrow> bool \<times> world" where
  "adaptationStorage_delete id' w =
     (let adaptations = adaptationStorage_getAll w;
          filtered = filter (\<lambda>a. a_id a \<noteq> id') adaptations
      in
      if length filtered = length adaptations then (False, w)
      else (True, w\<lparr>adaptations_item := setToStorage filtered\<rparr>))"

definition adaptationStorage_deleteByStudent :: "string \<Rightarrow> world \<Rightarrow> world" where
  "adaptationStorage_deleteByStudent studentId w =
     (let adaptations = adaptationStorage_getAll w;
          filtered = filter (\<lambda>a. a_studentId a \<noteq> studentId) adaptations
      in w\<lparr>adaptations_item := setToStorage filtered\<rparr>)"

subsection \<open>reportStorage\<close>

definition reportStorage_getAll :: "world \<Rightarrow> report list" where
  "reportStorage_getAll w = getFromStorage (reports_item w) []"

definition reportStorage_getByStudent :: "string \<Rightarrow> world \<Rightarrow> report list" where
  "reportStorage_getByStudent studentId w =
     (let reports = reportStorage_getAll w
      in filter (\<lambda>r. r_studentId r = studentId) reports)"

definition reportStorage_create :: "report_partial \<Rightarrow> world \<Rightarrow> report \<times> world" where
  "reportStorage_create data' w =
     (let reports = reportStorage_getAll w;
          currentUser = authStorage_getCurrentUser w
      in
      case generateId w of (newId, w1) \<Rightarrow>
      case (if orElse (pr_date data') [] = [] then
              (case nowISO w1 of (today, w2) \<Rightarrow> (splitT0 today, w2))
            else (orElse (pr_date data') [], w1)) of (date, w2) \<Rightarrow>
      case nowISO w2 of (created, w3) \<Rightarrow>
        let newReport =
          \<lparr>r_id = newId,
           r_studentId = orElse (pr_studentId data') [],
           r_teacherId = idOrEmpty currentUser,
           r_teacherName = (case currentUser of None \<Rightarrow> [] | Some u \<Rightarrow> u_name u),
           r_subject = orElse (pr_subject data') [],
           r_date = date,
           r_result = (case pr_result data' of None \<Rightarrow> neutro | Some res \<Rightarrow> res),
           r_description = orElse (pr_description data') [],
           r_createdAt = created,
           r_updatedAt = None\<rparr>
        in (newReport, w3\<lparr>reports_item := setToStorage (reports @ [newReport])\<rparr>))"

definition reportStorage_update ::
  "string \<Rightarrow> report_partial \<Rightarrow> world \<Rightarrow> report option \<times> world" where
  "reportStorage_update id' updates w =
     (let reports = reportStorage_getAll w in
      case findIndex (\<lambda>r. r_id r = id') reports of
        None \<Rightarrow> (None, w)
      | Some index \<Rightarrow>
          let old = reports ! index in
          case nowISO w of (now, w1) \<Rightarrow>
            let updated =
              \<lparr>r_id = id',
               r_studentId = spread (r_studentId old) (pr_studentId updates),
               r_teacherId = spread (r_teacherId old) (pr_teacherId updates),
               r_teacherName = spread (r_teacherName old) (pr_teacherName updates),
               r_subject = spread (r_subject old) (pr_subject updates),
               r_date = spread (r_date old) (pr_date updates),
               r_result = spread (r_result old) (pr_result updates),
               r_description = spread (r_description old) (pr_description updates),
               r_createdAt = spread (r_createdAt old) (pr_createdAt updates),
               r_updatedAt = Some now\<rparr>;
                reports' = reports[index := updated]
            in (Some (reports' ! index), w1\<lparr>reports_item := setToStorage reports'\<rparr>))"

definition reportStorage_delete :: "string \<Rightarrow> world \<Rightarrow> bool \<times> world" where
  "reportStorage_delete id' w =
     (let reports = reportStorage_getAll w;
          filtered = filter (\<lambda>r. r_id r \<noteq> id') reports
      in
      if length filtered = length reports then (False, w)
      else (True, w\<lparr>reports_item := setToStorage filtered\<rparr>))"

definition reportStorage_deleteByStudent :: "string \<Rightarrow> world \<Rightarrow> world" where
  "reportStorage_deleteByStudent studentId w =
     (let reports = reportStorage_getAll w;
          filtered = filter (\<lambda>r. r_studentId r \<noteq> studentId) reports
      in w\<lparr>reports_item := setToStorage filtered\<rparr>)"

text \<open>\<^verbatim>\<open>studentStorage.delete\<close> comes after the two \<^verbatim>\<open>deleteByStudent\<close> it calls.\<close>

definition studentStorage_delete :: "string \<Rightarrow> world \<Rightarrow> bool \<times> world" where
  "studentStorage_delete id' w =
     (let students = studentStorage_getAll w;
          filtered = filter (\<lambda>s. s_id s \<noteq> id') students
      in
      if length filtered = length students then (False, w)
      else
        let w1 = w\<lparr>students_item := setToStorage filtered\<rparr>;
            w2 = adaptationStorage_deleteByStudent id' w1;
            w3 = reportStorage_deleteByStudent id' w2
        in (True, w3))"

section \<open>Remote API Client\<close>

text \<open>
  The remote service is what \<^verbatim>\<open>apiFetch\<close> delivers for a request: the parsed body, or
  the error it throws (\<open>HttpError\<close> with the response status, 408 on timeout, or the
  network failure itself). Every call is recorded, in order.
\<close>

record request =
  req_method :: string
  req_url :: string
  req_body :: "json option"

type_synonym remote = "request \<Rightarrow> js_error + json"

definition API_URL :: string where
  "API_URL = ''https://adaptacoescurriculares-api.onrender.com''"

definition GET :: "string \<Rightarrow> request" where
  "GET url = \<lparr>req_method = ''GET'', req_url = url, req_body = None\<rparr>"

definition POST :: "string \<Rightarrow> json \<Rightarrow> request" where
  "POST url b = \<lparr>req_method = ''POST'', req_url = url, req_body = Some b\<rparr>"

definition PUT :: "string \<Rightarrow> json \<Rightarrow> request" where
  "PUT url b = \<lparr>req_method = ''PUT'', req_url = url, req_body = Some b\<rparr>"

definition apiFetch :: "remote \<Rightarrow> request \<Rightarrow> (js_error + json) \<times> request list" where
  "apiFetch remote req = (remote req, [req])"

text \<open>\<^verbatim>\<open>Array.isArray((res as any).k)\<close> on an object \<open>res\<close>, with the array.\<close>

fun arrayAt :: "(string \<times> json) list \<Rightarrow> string \<Rightarrow> json list option" where
  "arrayAt kvs k = (case map_of kvs k of Some (JArr xs) \<Rightarrow> Some xs | _ \<Rightarrow> None)"

definition api_getStudents :: "remote \<Rightarrow> (js_error + json list) \<times> request list" where
  "api_getStudents remote =
     (case apiFetch remote (GET (API_URL @ ''/students'')) of
        (Inl err, t) \<Rightarrow> (Inl err, t)
      | (Inr res, t) \<Rightarrow>
          (Inr (case res of
                  JArr xs \<Rightarrow> xs
                | JObj kvs \<Rightarrow>
                    (case arrayAt kvs ''value'' of
                       Some xs \<Rightarrow> xs
                     | None \<Rightarrow>
                         (case arrayAt kvs ''students'' of Some ys \<Rightarrow> ys | None \<Rightarrow> []))
                | _ \<Rightarrow> []), t))"

definition api_getAdaptations ::
  "remote \<Rightarrow> string \<Rightarrow> (js_error + json list) \<times> request list" where
  "api_getAdaptations remote studentId =
     (case apiFetch remote (GET (API_URL @ ''/adaptations/'' @ studentId)) of
        (Inl err, t) \<Rightarrow> (if status err = Some 404 then Inr [] else Inl err, t)
      | (Inr res, t) \<Rightarrow>
          (Inr (case res of
                  JArr xs \<Rightarrow> xs
                | JObj kvs \<Rightarrow>
                    (case arrayAt kvs ''value'' of
                       Some xs \<Rightarrow> xs
                     | None \<Rightarrow>
                         (case arrayAt kvs ''adaptations'' of Some ys \<Rightarrow> ys | None \<Rightarrow> []))
                | _ \<Rightarrow> []), t))"

definition api_getReports ::
  "remote \<Rightarrow> string \<Rightarrow> (js_error + json list) \<times> request list" where
  "api_getReports remote studentId =
     (case apiFetch remote (GET (API_URL @ ''/reports/'' @ studentId)) of
        (Inl err, t) \<Rightarrow> (if status err = Some 404 then Inr [] else Inl err, t)
      | (Inr res, t) \<Rightarrow>
          (Inr (case res of
                  JArr xs \<Rightarrow> xs
                | JObj kvs \<Rightarrow>
                    (case arrayAt kvs ''value'' of
                       Some xs \<Rightarrow> xs
                     | None \<Rightarrow>
                         (case arrayAt kvs ''reports'' of Some ys \<Rightarrow> ys | None \<Rightarrow> []))
                | _ \<Rightarrow> []), t))"

definition api_createAdaptation ::
  "remote \<Rightarrow> json \<Rightarrow> (js_error + json) \<times> request list" where
  "api_createAdaptation remote adaptation =
     apiFetch remote (POST (API_URL @ ''/adaptations'') adaptation)"

definition api_updateAdaptation ::
  "remote \<Rightarrow> string \<Rightarrow> string \<Rightarrow> json \<Rightarrow> (js_error + json) \<times> request list" where
  "api_updateAdaptation remote studentId adaptationId updates =
     (case apiFetch remote (PUT (API_URL @ ''/adaptations/'' @ adaptationId) updates) of
        (Inr res, t) \<Rightarrow> (Inr res, t)
      | (Inl err, t) \<Rightarrow>
          if status err = Some 404 then
            (case apiFetch remote
                    (PUT (API_URL @ ''/adaptations/'' @ studentId @ ''/'' @ adaptationId) updates) of
               (res2, t2) \<Rightarrow> (res2, t @ t2))
          else (Inl err, t))"

section \<open>Dual-Write Coordinator: AdaptationForm.handleSubmit\<close>

text \<open>JavaScript truthiness of a JSON value, and reading a key of a non-null value.\<close>

fun truthy :: "json \<Rightarrow> bool" where
  "truthy JNull = False"
| "truthy (JBool b) = b"
| "truthy (JNum n) = (n \<noteq> 0)"
| "truthy (JStr s) = (s \<noteq> [])"
| "truthy (JArr xs) = True"
| "truthy (JObj kvs) = True"

fun getProp :: "json \<Rightarrow> string \<Rightarrow> json option" where
  "getProp (JObj kvs) k = map_of kvs k"
| "getProp v k = None"

record formData =
  fd_description :: string
  fd_justification :: string
  fd_date :: string

datatype toast = Success string | Failure string

text \<open>
  What the caller sees of one submit: the form's error text, the toasts, the argument
  \<^verbatim>\<open>onSuccess\<close> was called with (if it was called), whether the dialog was closed, and
  the requests sent.
\<close>

record submitted =
  sub_error :: string
  sub_toasts :: "toast list"
  sub_onSuccess :: "adaptation option option"
  sub_closed :: bool
  sub_requests :: "request list"

text \<open>
  \<^verbatim>\<open>new Date(s).toISOString()\<close> is the parameter \<open>toISO\<close>: \<open>None\<close> where the date
  is invalid and the call throws a RangeError.
\<close>

definition invalidTime :: js_error where
  "invalidTime = RangeError ''Invalid time value''"

definition failed :: "js_error \<Rightarrow> request list \<Rightarrow> world \<Rightarrow> submitted \<times> world" where
  "failed err t w =
     (let m = (if message err = [] then ''Erro ao salvar adaptacao'' else message err)
      in (\<lparr>sub_error = m, sub_toasts = [Failure m], sub_onSuccess = None,
           sub_closed = False, sub_requests = t\<rparr>, w))"

definition succeeded ::
  "toast list \<Rightarrow> adaptation option \<Rightarrow> request list \<Rightarrow> world \<Rightarrow> submitted \<times> world" where
  "succeeded ts created t w =
     (\<lparr>sub_error = [], sub_toasts = ts, sub_onSuccess = Some created,
       sub_closed = True, sub_requests = t\<rparr>, w)"

definition handleSubmit ::
  "(string \<Rightarrow> string option) \<Rightarrow> remote \<Rightarrow> string \<Rightarrow> adaptation option \<Rightarrow> formData \<Rightarrow>
   world \<Rightarrow> submitted \<times> world" where
  "handleSubmit toISO remote studentId adaptation' fd w =
     (if fd_description fd = [] \<or> fd_justification fd = [] \<or> fd_date fd = [] then
        (\<lparr>sub_error = ''Por favor, preencha todos os campos'', sub_toasts = [],
          sub_onSuccess = None, sub_closed = False, sub_requests = []\<rparr>, w)
      else
        case adaptation' of
          Some existing \<Rightarrow>
            (case toISO (fd_date fd) of
               None \<Rightarrow> failed invalidTime [] w
             | Some isoDate \<Rightarrow>
                 (case api_updateAdaptation remote studentId (a_id existing)
                         (JObj [(''description'', JStr (fd_description fd)),
                                (''justification'', JStr (fd_justification fd)),
                                (''date'', JStr isoDate)]) of
                    (res, t) \<Rightarrow>
                      let ts = (case res of
                                  Inr v \<Rightarrow> [Success ''Adaptacao atualizada com sucesso!'']
                                | Inl err \<Rightarrow> [])
                      in
                      case adaptationStorage_update (a_id existing)
                             \<lparr>pa_id = None, pa_studentId = None,
                              pa_description = Some (fd_description fd),
                              pa_justification = Some (fd_justification fd),
                              pa_date = Some isoDate, pa_createdAt = None, pa_createdBy = None,
                              pa_updatedAt = None\<rparr> w of
                        (local, w') \<Rightarrow> succeeded ts local t w'))
        | None \<Rightarrow>
            (case toISO (fd_date fd) of
               None \<Rightarrow> failed invalidTime [] w
             | Some isoDate \<Rightarrow>
                 (case api_createAdaptation remote
                         (JObj [(''description'', JStr (fd_description fd)),
                                (''justification'', JStr (fd_justification fd)),
                                (''date'', JStr isoDate),
                                (''studentId'', JStr studentId)]) of
                    (Inr res, t) \<Rightarrow>
                      (case (if truthy res \<and> (case getProp res ''id'' of None \<Rightarrow> False
                                                | Some i \<Rightarrow> truthy i)
                             then adaptationStorage_create
                                    \<lparr>pa_id = getProp res ''id'', pa_studentId = Some studentId,
                                     pa_description = Some (fd_description fd),
                                     pa_justification = Some (fd_justification fd),
                                     pa_date = Some isoDate, pa_createdAt = None,
                                     pa_createdBy = None, pa_updatedAt = None\<rparr> w
                             else adaptationStorage_create
                                    \<lparr>pa_id = None, pa_studentId = Some studentId,
                                     pa_description = Some (fd_description fd),
                                     pa_justification = Some (fd_justification fd),
                                     pa_date = Some isoDate, pa_createdAt = None,
                                     pa_createdBy = None, pa_updatedAt = None\<rparr> w) of
                         (created, w') \<Rightarrow>
                           succeeded [Success ''Adaptacao registrada com sucesso!'']
                             (Some created) t w')
                  | (Inl err, t) \<Rightarrow>
                      (case adaptationStorage_create
                              \<lparr>pa_id = None, pa_studentId = Some studentId,
                               pa_description = Some (fd_description fd),
                               pa_justification = Some (fd_justification fd),
                               pa_date = Some isoDate, pa_createdAt = None,
                               pa_createdBy = None, pa_updatedAt = None\<rparr> w of
                         (created, w') \<Rightarrow>
                           succeeded [Success ''Adaptacao registrada localmente (offline)'']
                             (Some created) t w'))))"

section \<open>Merge-on-Read Aggregator: StudentReport.loadReport\<close>

text \<open>The stored records as the objects \<^verbatim>\<open>JSON.parse\<close> returns.\<close>

definition optKey :: "string \<Rightarrow> string option \<Rightarrow> (string \<times> json) list" where
  "optKey k v = (case v of None \<Rightarrow> [] | Some s \<Rightarrow> [(k, JStr s)])"

definition adaptation_json :: "adaptation \<Rightarrow> json" where
  "adaptation_json a =
     JObj ([(''id'', JStr (a_id a)), (''studentId'', JStr (a_studentId a)),
            (''description'', JStr (a_description a)),
            (''justification'', JStr (a_justification a)), (''date'', JStr (a_date a)),
            (''createdAt'', JStr (a_createdAt a)), (''createdBy'', JStr (a_createdBy a))]
           @ optKey ''updatedAt'' (a_updatedAt a))"

fun result_text :: "report_result \<Rightarrow> string" where
  "result_text positivo = ''positivo''"
| "result_text neutro = ''neutro''"
| "result_text negativo = ''negativo''"

definition report_json :: "report \<Rightarrow> json" where
  "report_json r =
     JObj ([(''id'', JStr (r_id r)), (''studentId'', JStr (r_studentId r)),
            (''teacherId'', JStr (r_teacherId r)), (''teacherName'', JStr (r_teacherName r)),
            (''subject'', JStr (r_subject r)), (''date'', JStr (r_date r)),
            (''result'', JStr (result_text (r_result r))),
            (''description'', JStr (r_description r)),
            (''createdAt'', JStr (r_createdAt r))]
           @ optKey ''updatedAt'' (r_updatedAt r))"

fun asArray :: "json \<Rightarrow> json list" where
  "asArray (JArr xs) = xs"
| "asArray (JObj kvs) = [JObj kvs]"
| "asArray v = []"

text \<open>
  The key of an entry: \<^verbatim>\<open>String(a.id || a._localId || JSON.stringify(a))\<close>. Reading a
  key of \<^verbatim>\<open>null\<close> throws. \<^verbatim>\<open>JSON.stringify\<close> and \<^verbatim>\<open>String\<close> on a value that is
  not a string are the platform's, the parameters \<open>stringify\<close> and \<open>toString\<close>.
\<close>

definition nullRead :: js_error where
  "nullRead = TypeError ''Cannot read properties of null''"

definition String' :: "(json \<Rightarrow> string) \<Rightarrow> json \<Rightarrow> string" where
  "String' toString v = (case v of JStr s \<Rightarrow> s | _ \<Rightarrow> toString v)"

text \<open>\<^verbatim>\<open>x || ...\<close>: the value of \<open>x\<close> when it is there and truthy.\<close>

definition truthyValue :: "json option \<Rightarrow> json option" where
  "truthyValue v = (case v of None \<Rightarrow> None | Some x \<Rightarrow> if truthy x then Some x else None)"

definition mergeKey ::
  "(json \<Rightarrow> string) \<Rightarrow> (json \<Rightarrow> string) \<Rightarrow> json \<Rightarrow> js_error + string" where
  "mergeKey stringify toString a =
     (if a = JNull then Inl nullRead
      else
        case truthyValue (getProp a ''id'') of
          Some i \<Rightarrow> Inr (String' toString i)
        | None \<Rightarrow>
            (case truthyValue (getProp a ''_localId'') of
               Some l \<Rightarrow> Inr (String' toString l)
             | None \<Rightarrow> Inr (stringify a)))"

text \<open>
  A JavaScript \<^verbatim>\<open>Map\<close> keeps its keys in insertion order; \<^verbatim>\<open>set\<close> on a key it has
  replaces the value in place.
\<close>

fun Map_set :: "(string \<times> json) list \<Rightarrow> string \<Rightarrow> json \<Rightarrow> (string \<times> json) list" where
  "Map_set [] k v = [(k, v)]"
| "Map_set ((k', v') # m) k v = (if k' = k then (k, v) # m else (k', v') # Map_set m k v)"

text \<open>\<^verbatim>\<open>xs.forEach(a => m.set(key(a), a))\<close>; a throwing \<open>key\<close> ends the loop.\<close>

fun setEach ::
  "(json \<Rightarrow> js_error + string) \<Rightarrow> (string \<times> json) list \<Rightarrow> json list \<Rightarrow>
   js_error + (string \<times> json) list" where
  "setEach key m [] = Inr m"
| "setEach key m (a # as) =
     (case key a of Inl err \<Rightarrow> Inl err | Inr k \<Rightarrow> setEach key (Map_set m k a) as)"

definition merged ::
  "(json \<Rightarrow> js_error + string) \<Rightarrow> json \<Rightarrow> json list \<Rightarrow> js_error + json list" where
  "merged key remoteItems localItems =
     (case setEach key [] (asArray remoteItems) of
        Inl err \<Rightarrow> Inl err
      | Inr m1 \<Rightarrow>
          (case setEach key m1 localItems of
             Inl err \<Rightarrow> Inl err
           | Inr m2 \<Rightarrow> Inr (map snd m2)))"

record reportData =
  rd_student :: json
  rd_adaptations :: json
  rd_reports :: json

record studentReport =
  sr_student :: json
  sr_adaptations :: "json list"
  sr_reports :: "json list"

record page =
  pg_data :: "studentReport option"
  pg_loading :: bool
  pg_error :: string

text \<open>
  \<open>fetched\<close> is what \<^verbatim>\<open>api.getStudentReport(studentId)\<close> resolves to, or the error it
  rejects with. \<open>createdItem\<close> is the optional argument.
\<close>

definition loadReport ::
  "(json \<Rightarrow> string) \<Rightarrow> (json \<Rightarrow> string) \<Rightarrow> json option \<Rightarrow> (js_error + reportData) \<Rightarrow>
   string \<Rightarrow> world \<Rightarrow> page \<Rightarrow> page" where
  "loadReport stringify toString createdItem fetched studentId w pg =
     (let optimistic =
        (case (createdItem, pg_data pg) of
           (Some item, Some d) \<Rightarrow>
             if \<not> truthy item then None
             else if getProp item ''result'' \<noteq> None then
               Some (d\<lparr>sr_reports := item # sr_reports d\<rparr>)
             else if getProp item ''justification'' \<noteq> None then
               Some (d\<lparr>sr_adaptations := item # sr_adaptations d\<rparr>)
             else None
         | _ \<Rightarrow> None)
      in
      case optimistic of
        Some d' \<Rightarrow> pg\<lparr>pg_data := Some d', pg_loading := False\<rparr>
      | None \<Rightarrow>
          let reportData =
                (case fetched of
                   Inr rd \<Rightarrow> rd
                 | Inl err \<Rightarrow> \<lparr>rd_student = JNull, rd_adaptations = JArr [],
                               rd_reports = JArr []\<rparr>);
              localAdaptations = map adaptation_json (adaptationStorage_getByStudent studentId w);
              localReports = map report_json (reportStorage_getByStudent studentId w);
              key = mergeKey stringify toString
          in
          case merged key (rd_adaptations reportData) localAdaptations of
            Inl err \<Rightarrow>
              pg\<lparr>pg_loading := False,
                 pg_error := (if message err = [] then ''Erro ao carregar relatorio''
                              else message err)\<rparr>
          | Inr mergedAdaptations \<Rightarrow>
              (case merged key (rd_reports reportData) localReports of
                 Inl err \<Rightarrow>
                   pg\<lparr>pg_loading := False,
                      pg_error := (if message err = [] then ''Erro ao carregar relatorio''
                                   else message err)\<rparr>
               | Inr mergedReports \<Rightarrow>
                   pg\<lparr>pg_data :=
                        Some \<lparr>sr_student = (if truthy (rd_student reportData)
                                             then rd_student reportData else JNull),
                              sr_adaptations = mergedAdaptations,
                              sr_reports = mergedReports\<rparr>,
                      pg_loading := False, pg_error := []\<rparr>))"

section \<open>Fallback Authenticator: AuthProvider.signIn\<close>

text \<open>
  The three remote outcomes of one sign-in. \<open>supabase\<close>: the access token of
  \<^verbatim>\<open>signInWithPassword\<close>, \<open>None\<close> when it reports an error or no session, \<open>Inl\<close> when
  it throws. \<open>me\<close>: the profile of \<^verbatim>\<open>GET /me\<close>, \<open>None\<close> when the response is not ok.
  \<open>lookup\<close>: the user \<^verbatim>\<open>GET /users?email=\<close> finds for the email, \<open>None\<close> when the
  response is not ok or holds no such user.
\<close>

record remote_user =
  ru_id :: "string option"
  ru_userId :: "string option"
  ru_email :: string
  ru_name :: "string option"
  ru_fullName :: "string option"
  ru_role :: "role option"

record auth_remote =
  supabase :: "js_error + string option"
  me :: "js_error + user option"
  lookup :: "js_error + remote_user option"

record auth =
  auth_user :: "user option"
  auth_loading :: bool

definition notFound :: js_error where
  "notFound = Error ''Usuario nao encontrado. Verifique o e-mail ou senha.''"

definition signIn ::
  "auth_remote \<Rightarrow> string \<Rightarrow> string \<Rightarrow> world \<times> auth \<Rightarrow> js_error option \<times> world \<times> auth" where
  "signIn remote email password st =
     (case st of (w0, ctx) \<Rightarrow>
      let w = initializeDefaultUsers w0;
          stage1 =
            (case supabase remote of
               Inr (Some accessToken) \<Rightarrow>
                 (case me remote of
                    Inr (Some profile) \<Rightarrow> Some (accessToken, profile)
                  | _ \<Rightarrow> None)
             | _ \<Rightarrow> None)
      in
      case stage1 of
        Some (accessToken, profile) \<Rightarrow>
          (None,
           w\<lparr>token_item := Some accessToken, user_item := setToStorage profile\<rparr>,
           ctx\<lparr>auth_user := Some profile\<rparr>)
      | None \<Rightarrow>
          (case (case lookup remote of Inr (Some found) \<Rightarrow> Some found | _ \<Rightarrow> None) of
             Some found \<Rightarrow>
               let token = ''mock-api-'' @ ru_email found;
                   profile =
                     \<lparr>u_id = orElse (ru_id found) (orElse (ru_userId found) (ru_email found)),
                      u_email = ru_email found,
                      u_name = orElse (ru_name found) (orElse (ru_fullName found) []),
                      u_role = (case ru_role found of None \<Rightarrow> professor | Some r \<Rightarrow> r)\<rparr>
               in (None,
                   w\<lparr>token_item := Some token, user_item := setToStorage profile\<rparr>,
                   ctx\<lparr>auth_user := Some profile\<rparr>)
           | None \<Rightarrow>
               (case authStorage_signIn email password w of
                  (None, w1) \<Rightarrow> (Some notFound, w1, ctx)
                | (Some user, w1) \<Rightarrow>
                    let token = ''mock-token-'' @ u_id user
                    in (None,
                        w1\<lparr>token_item := Some token, user_item := setToStorage user\<rparr>,
                        ctx\<lparr>auth_user := Some user\<rparr>))))"

text \<open>The effect of \<^verbatim>\<open>AuthProvider\<close> on mount: both initializers, in this order.\<close>

definition initializeStore :: "world \<Rightarrow> world" where
  "initializeStore w = initializeDefaultData (initializeDefaultUsers w)"

section \<open>Report forms and the API student import\<close>

text \<open>
  The repository holds two report forms. The first writes to \<^verbatim>\<open>reportStorage\<close> after
  trying the remote service, as \<^verbatim>\<open>AdaptationForm\<close> does; the second
  (\<^verbatim>\<open>src/components/ReportForm.tsx\<close>) talks to the remote service only.
  \<^verbatim>\<open>ApiStudentList.handleImport\<close> creates a student on the remote service only.
\<close>

definition api_createReport :: "remote \<Rightarrow> json \<Rightarrow> (js_error + json) \<times> request list" where
  "api_createReport remote report' = apiFetch remote (POST (API_URL @ ''/reports'') report')"

definition api_updateReport ::
  "remote \<Rightarrow> string \<Rightarrow> string \<Rightarrow> json \<Rightarrow> (js_error + json) \<times> request list" where
  "api_updateReport remote studentId reportId updates =
     (case apiFetch remote (PUT (API_URL @ ''/reports/'' @ reportId) updates) of
        (Inr res, t) \<Rightarrow> (Inr res, t)
      | (Inl err, t) \<Rightarrow>
          if status err = Some 404 then
            (case apiFetch remote
                    (PUT (API_URL @ ''/reports/'' @ studentId @ ''/'' @ reportId) updates) of
               (res2, t2) \<Rightarrow> (res2, t @ t2))
          else (Inl err, t))"

definition api_createStudent :: "remote \<Rightarrow> json \<Rightarrow> (js_error + json) \<times> request list" where
  "api_createStudent remote student' = apiFetch remote (POST (API_URL @ ''/students'') student')"

record reportFormData =
  rf_subject :: string
  rf_result :: report_result
  rf_description :: string
  rf_date :: string

text \<open>
  What the caller sees of one submit of a report form; \<^verbatim>\<open>onSuccess\<close> receives a stored
  report from the first form and the response body from the second.
\<close>

record 'a outcome =
  out_error :: string
  out_toasts :: "toast list"
  out_onSuccess :: "'a option option"
  out_closed :: bool
  out_requests :: "request list"

text \<open>\<^verbatim>\<open>formData\<close> as the body of an update, and the \<^verbatim>\<open>payload\<close> of a create.\<close>

definition reportUpdateBody :: "reportFormData \<Rightarrow> json" where
  "reportUpdateBody fd =
     JObj [(''subject'', JStr (rf_subject fd)), (''result'', JStr (result_text (rf_result fd))),
           (''description'', JStr (rf_description fd)), (''date'', JStr (rf_date fd))]"

definition reportPayload :: "reportFormData \<Rightarrow> string \<Rightarrow> string \<Rightarrow> json" where
  "reportPayload fd isoDate studentId =
     JObj [(''subject'', JStr (rf_subject fd)), (''result'', JStr (result_text (rf_result fd))),
           (''description'', JStr (rf_description fd)), (''date'', JStr isoDate),
           (''studentId'', JStr studentId)]"

definition reportFailed ::
  "js_error \<Rightarrow> toast list \<Rightarrow> request list \<Rightarrow> world \<Rightarrow> 'a outcome \<times> world" where
  "reportFailed err ts t w =
     (let m = (if message err = [] then ''Erro ao salvar relato'' else message err)
      in (\<lparr>out_error = m, out_toasts = ts @ [Failure m], out_onSuccess = None,
           out_closed = False, out_requests = t\<rparr>, w))"

definition reportSucceeded ::
  "toast list \<Rightarrow> 'a option \<Rightarrow> request list \<Rightarrow> world \<Rightarrow> 'a outcome \<times> world" where
  "reportSucceeded ts created t w =
     (\<lparr>out_error = [], out_toasts = ts, out_onSuccess = Some created,
       out_closed = True, out_requests = t\<rparr>, w)"

definition reportRejected :: "string \<Rightarrow> world \<Rightarrow> 'a outcome \<times> world" where
  "reportRejected m w =
     (\<lparr>out_error = m, out_toasts = [], out_onSuccess = None, out_closed = False,
       out_requests = []\<rparr>, w)"

text \<open>The report form that writes locally (\<^verbatim>\<open>handleSubmit\<close> of the dual-write variant).\<close>

definition ReportForm_handleSubmit_dualWrite ::
  "(string \<Rightarrow> string option) \<Rightarrow> remote \<Rightarrow> string \<Rightarrow> report option \<Rightarrow> reportFormData \<Rightarrow>
   world \<Rightarrow> report outcome \<times> world" where
  "ReportForm_handleSubmit_dualWrite toISO remote studentId report' fd w =
     (if rf_subject fd = [] \<or> rf_description fd = [] then
        reportRejected ''Por favor, preencha todos os campos obrigatorios'' w
      else if rf_date fd = [] then reportRejected ''Por favor, informe a data do relato'' w
      else
        case report' of
          Some existing \<Rightarrow>
            (case api_updateReport remote studentId (r_id existing) (reportUpdateBody fd) of
               (res, t) \<Rightarrow>
                 let ts = (case res of
                             Inr v \<Rightarrow> [Success ''Relato atualizado com sucesso!'']
                           | Inl err \<Rightarrow> [])
                 in
                 case (if rf_date fd \<noteq> [] then
                         (case toISO (rf_date fd) of
                            None \<Rightarrow> Inl invalidTime
                          | Some isoDate \<Rightarrow> Inr (isoDate, w))
                       else Inr (nowISO w)) of
                   Inl err \<Rightarrow> reportFailed err ts t w
                 | Inr (date, w1) \<Rightarrow>
                     (case reportStorage_update (r_id existing)
                             \<lparr>pr_id = None, pr_studentId = None, pr_teacherId = None,
                              pr_teacherName = None, pr_subject = Some (rf_subject fd),
                              pr_date = Some date, pr_result = Some (rf_result fd),
                              pr_description = Some (rf_description fd),
                              pr_createdAt = None, pr_updatedAt = None\<rparr> w1 of
                        (local, w') \<Rightarrow> reportSucceeded ts local t w'))
        | None \<Rightarrow>
            (case toISO (rf_date fd) of
               None \<Rightarrow> reportFailed invalidTime [] [] w
             | Some isoDate \<Rightarrow>
                 (case api_createReport remote (reportPayload fd isoDate studentId) of
                    (Inr res, t) \<Rightarrow>
                      (case (if truthy res \<and> (case getProp res ''id'' of None \<Rightarrow> False
                                                | Some i \<Rightarrow> truthy i)
                             then reportStorage_create
                                    \<lparr>pr_id = getProp res ''id'', pr_studentId = Some studentId,
                                     pr_teacherId = None, pr_teacherName = None,
                                     pr_subject = Some (rf_subject fd), pr_date = Some isoDate,
                                     pr_result = Some (rf_result fd),
                                     pr_description = Some (rf_description fd),
                                     pr_createdAt = None, pr_updatedAt = None\<rparr> w
                             else reportStorage_create
                                    \<lparr>pr_id = None, pr_studentId = Some studentId,
                                     pr_teacherId = None, pr_teacherName = None,
                                     pr_subject = Some (rf_subject fd), pr_date = Some isoDate,
                                     pr_result = Some (rf_result fd),
                                     pr_description = Some (rf_description fd),
                                     pr_createdAt = None, pr_updatedAt = None\<rparr> w) of
                         (created, w') \<Rightarrow>
                           reportSucceeded [Success ''Relato registrado com sucesso!'']
                             (Some created) t w')
                  | (Inl err, t) \<Rightarrow>
                      (case reportStorage_create
                              \<lparr>pr_id = None, pr_studentId = Some studentId,
                               pr_teacherId = None, pr_teacherName = None,
                               pr_subject = Some (rf_subject fd), pr_date = Some isoDate,
                               pr_result = Some (rf_result fd),
                               pr_description = Some (rf_description fd),
                               pr_createdAt = None, pr_updatedAt = None\<rparr> w of
                         (created, w') \<Rightarrow>
                           reportSucceeded [Success ''Relato registrado localmente (offline)'']
                             (Some created) t w'))))"

text \<open>
  \<^verbatim>\<open>handleSubmit\<close> of \<^verbatim>\<open>src/components/ReportForm.tsx\<close>. It makes no call to the
  Local Record Store, so the world it returns is the one it was given; \<^verbatim>\<open>onSuccess\<close>
  receives what \<^verbatim>\<open>api.createReport\<close> resolved to (nothing after an update).
\<close>

definition ReportForm_handleSubmit ::
  "(string \<Rightarrow> string option) \<Rightarrow> remote \<Rightarrow> string \<Rightarrow> report option \<Rightarrow> reportFormData \<Rightarrow>
   world \<Rightarrow> json outcome \<times> world" where
  "ReportForm_handleSubmit toISO remote studentId report' fd w =
     (if rf_subject fd = [] \<or> rf_description fd = [] then
        reportRejected ''Por favor, preencha todos os campos obrigatorios'' w
      else if rf_date fd = [] then reportRejected ''Por favor, informe a data do relato'' w
      else
        case report' of
          Some existing \<Rightarrow>
            (case api_updateReport remote studentId (r_id existing) (reportUpdateBody fd) of
               (Inl err, t) \<Rightarrow> reportFailed err [] t w
             | (Inr res, t) \<Rightarrow>
                 reportSucceeded [Success ''Relato atualizado com sucesso!''] None t w)
        | None \<Rightarrow>
            (case toISO (rf_date fd) of
               None \<Rightarrow> reportFailed invalidTime [] [] w
             | Some isoDate \<Rightarrow>
                 (case api_createReport remote (reportPayload fd isoDate studentId) of
                    (Inl err, t) \<Rightarrow> reportFailed err [] t w
                  | (Inr created, t) \<Rightarrow>
                      reportSucceeded [Success ''Relato registrado com sucesso!'']
                        (Some created) t w)))"

text \<open>
  \<^verbatim>\<open>ApiStudentList.handleImport(remote)\<close>. The argument is an entry of the list the API
  returned; reading a key of \<^verbatim>\<open>null\<close> throws before the \<^verbatim>\<open>try\<close>. The function makes
  no call to the Local Record Store. The component's own bookkeeping (the ids being
  imported, the cache of registration numbers) is left out.
\<close>

definition orJson :: "json option \<Rightarrow> json \<Rightarrow> json" where
  "orJson a b = (case truthyValue a of Some v \<Rightarrow> v | None \<Rightarrow> b)"

definition studentPartial :: "(json \<Rightarrow> string) \<Rightarrow> json \<Rightarrow> json" where
  "studentPartial toString r =
     JObj [(''name'', orJson (getProp r ''name'') (JStr [])),
           (''course'', orJson (getProp r ''course'') (JStr [])),
           (''class'', orJson (getProp r ''class'') (orJson (getProp r ''turma'') (JStr []))),
           (''birthDate'', orJson (getProp r ''birthDate'') (JStr [])),
           (''registrationNumber'',
              JStr (String' toString
                (orJson (getProp r ''registrationNumber'') (orJson (getProp r ''id'') (JStr []))))),
           (''guardianName'', orJson (getProp r ''guardianName'') (JStr [])),
           (''guardianContact'', orJson (getProp r ''guardianContact'') (JStr []))]"

record imported =
  imp_thrown :: "js_error option"
  imp_toasts :: "toast list"
  imp_onImport :: bool
  imp_requests :: "request list"

definition handleImport ::
  "(json \<Rightarrow> string) \<Rightarrow> remote \<Rightarrow> json \<Rightarrow> world \<Rightarrow> imported \<times> world" where
  "handleImport toString remote r w =
     (if r = JNull then
        (\<lparr>imp_thrown = Some nullRead, imp_toasts = [], imp_onImport = False,
          imp_requests = []\<rparr>, w)
      else
        case api_createStudent remote (studentPartial toString r) of
          (Inr res, t) \<Rightarrow>
            (\<lparr>imp_thrown = None, imp_toasts = [Success ''Estudante importado com sucesso''],
              imp_onImport = True, imp_requests = t\<rparr>, w)
        | (Inl err, t) \<Rightarrow>
            (\<lparr>imp_thrown = None,
              imp_toasts = [Failure (if message err = [] then ''Erro ao importar estudante''
                                     else message err)],
              imp_onImport = False, imp_requests = t\<rparr>, w))"

section \<open>Predicates and example stores used in the statements\<close>

text \<open>A stored item that is missing, or that \<^verbatim>\<open>JSON.parse\<close> rejects.\<close>

definition unreadable :: "'a item option \<Rightarrow> bool" where
  "unreadable got = (case got of None \<Rightarrow> True | Some text \<Rightarrow> isl (JSON_parse text))"

text \<open>
  How a field of an updated record relates to the partial and to the stored record:
  the partial's value when the partial has the key, the stored value otherwise.
\<close>

definition carries :: "'a option \<Rightarrow> 'a \<Rightarrow> 'a \<Rightarrow> bool" where
  "carries p old new = (case p of Some v \<Rightarrow> new = v | None \<Rightarrow> new = old)"

definition carriesOpt :: "'a option \<Rightarrow> 'a option \<Rightarrow> 'a option \<Rightarrow> bool" where
  "carriesOpt p old new = (case p of Some v \<Rightarrow> new = Some v | None \<Rightarrow> new = old)"

text \<open>A submitted value is held by a field of the created record.\<close>

definition holds :: "'a option \<Rightarrow> 'a \<Rightarrow> bool" where
  "holds p new = (case p of Some v \<Rightarrow> new = v | None \<Rightarrow> True)"

text \<open>A response body that is neither an array nor an object.\<close>

definition primitive :: "json \<Rightarrow> bool" where
  "primitive v = (case v of JArr xs \<Rightarrow> False | JObj kvs \<Rightarrow> False | _ \<Rightarrow> True)"

text \<open>
  The entries of a \<^verbatim>\<open>Map\<close> built by \<open>setEach\<close>: the keys are distinct and each value
  sits under its own key.
\<close>

definition keyed :: "(json \<Rightarrow> js_error + string) \<Rightarrow> (string \<times> json) list \<Rightarrow> bool" where
  "keyed key m = (distinct (map fst m) \<and> list_all (\<lambda>(k, v). key v = Inr k) m)"

text \<open>The first two stages of a sign-in produce no session.\<close>

definition sessionStageFails :: "auth_remote \<Rightarrow> bool" where
  "sessionStageFails remote =
     (case supabase remote of
        Inr (Some accessToken) \<Rightarrow> (case me remote of Inr (Some profile) \<Rightarrow> False | _ \<Rightarrow> True)
      | _ \<Rightarrow> True)"

definition lookupStageFails :: "auth_remote \<Rightarrow> bool" where
  "lookupStageFails remote = (case lookup remote of Inr (Some found) \<Rightarrow> False | _ \<Rightarrow> True)"

text \<open>Every remote endpoint is unreachable: each call throws.\<close>

definition unreachable :: auth_remote where
  "unreachable =
     \<lparr>supabase = Inl (TypeError ''Failed to fetch''), me = Inl (TypeError ''Failed to fetch''),
      lookup = Inl (TypeError ''Failed to fetch'')\<rparr>"

text \<open>
  Remote services for the examples: one that answers every request with 404, one that
  is offline, one that accepts every request and answers with an object whose id is
  \<^verbatim>\<open>srv-42\<close>, and one that knows an adaptation under its nested path only.
\<close>

definition notFoundRemote :: remote where
  "notFoundRemote = (\<lambda>req. Inl (HttpError 404 ''Not Found''))"

definition offlineRemote :: remote where
  "offlineRemote = (\<lambda>req. Inl (TypeError ''Failed to fetch''))"

definition acceptingRemote :: remote where
  "acceptingRemote = (\<lambda>req. Inr (JObj [(''id'', JStr ''srv-42'')]))"

definition nestedRemote :: remote where
  "nestedRemote =
     (\<lambda>req. if req_url req = API_URL @ ''/adaptations/s1/a1'' then Inr JNull
            else Inl (HttpError 404 ''Not Found''))"

text \<open>The bodies \<^verbatim>\<open>handleSubmit\<close> sends with an update and with a create.\<close>

definition updateBody :: "formData \<Rightarrow> string \<Rightarrow> json" where
  "updateBody fd d =
     JObj [(''description'', JStr (fd_description fd)),
           (''justification'', JStr (fd_justification fd)), (''date'', JStr d)]"

definition createBody :: "formData \<Rightarrow> string \<Rightarrow> string \<Rightarrow> json" where
  "createBody fd d studentId =
     JObj [(''description'', JStr (fd_description fd)),
           (''justification'', JStr (fd_justification fd)), (''date'', JStr d),
           (''studentId'', JStr studentId)]"

text \<open>A filled form, and the ISO text of a date given as year-month-day.\<close>

definition oralExam :: formData where
  "oralExam = \<lparr>fd_description = ''Prova oral'', fd_justification = ''Parecer pedagogico'',
               fd_date = ''2024-03-05''\<rparr>"

definition isoMidnight :: "string \<Rightarrow> string option" where
  "isoMidnight s = (if length s = 10 then Some (s @ ''T00:00:00.000Z'') else None)"

text \<open>
  A signed-out page, a remote that answers every request with one body, a filled report
  form, and a student as the API lists it.
\<close>

definition signedOut :: auth where
  "signedOut = \<lparr>auth_user = None, auth_loading = False\<rparr>"

definition answering :: "json \<Rightarrow> remote" where
  "answering b = (\<lambda>req. Inr b)"

definition filledReport :: reportFormData where
  "filledReport = \<lparr>rf_subject = ''Historia'', rf_result = positivo,
                   rf_description = ''Boa participacao'', rf_date = ''2024-03-05''\<rparr>"

definition listedStudent :: json where
  "listedStudent = JObj [(''id'', JStr ''77''), (''name'', JStr ''Carla Dias''),
                         (''turma'', JStr ''3C'')]"

text \<open>An empty localStorage, and a small populated one.\<close>

definition emptyStore :: world where
  "emptyStore =
     \<lparr>users_item = None, students_item = None, adaptations_item = None, reports_item = None,
      current_user_item = None, token_item = None, user_item = None, tick = 0,
      idSource = (\<lambda>n. ''gen'' @ replicate n CHR ''1''),
      clock = (\<lambda>n. ''2024-03-01T10:00:00.000Z'')\<rparr>"

definition maria :: user where
  "maria = \<lparr>u_id = ''u1'', u_email = ''coordenador@escola.com'', u_name = ''Maria Silva'',
            u_role = coordenador\<rparr>"

definition ana :: student where
  "ana = \<lparr>s_id = ''s1'', s_name = ''Ana Pereira'', s_course = ''Ensino Medio'', s_class = ''2A'',
          s_birthDate = ''2006-05-12'', s_registrationNumber = ''2021001'',
          s_guardianName = Some ''Carlos Pereira'', s_guardianContact = None,
          s_createdAt = ''2024-01-01T00:00:00.000Z'', s_createdBy = ''u1'',
          s_updatedAt = None, s_updatedBy = None\<rparr>"

definition extraTime :: adaptation where
  "extraTime = \<lparr>a_id = ''a1'', a_studentId = ''s1'', a_description = ''Tempo extra'',
                a_justification = ''Laudo'', a_date = ''2024-01-02'',
                a_createdAt = ''2024-01-02T00:00:00.000Z'', a_createdBy = ''u1'',
                a_updatedAt = None\<rparr>"

definition otherAdaptation :: adaptation where
  "otherAdaptation = extraTime\<lparr>a_id := ''a2'', a_studentId := ''s2''\<rparr>"

definition mathReport :: report where
  "mathReport = \<lparr>r_id = ''r1'', r_studentId = ''s1'', r_teacherId = ''u2'',
                 r_teacherName = ''Joao Santos'', r_subject = ''Matematica'',
                 r_date = ''2024-01-03'', r_result = neutro, r_description = ''Observacoes'',
                 r_createdAt = ''2024-01-03T00:00:00.000Z'', r_updatedAt = None\<rparr>"

definition sampleStore :: world where
  "sampleStore =
     emptyStore\<lparr>users_item := Some (Stringified [maria]),
                students_item := Some (Stringified [ana]),
                adaptations_item := Some (Stringified [extraTime, otherAdaptation]),
                reports_item := Some (Stringified [mathReport]),
                current_user_item := Some (Stringified (Some maria))\<rparr>"

text \<open>Partials for the three updates; each carries a foreign id.\<close>

definition renaming :: student_partial where
  "renaming = \<lparr>ps_id = Some (JStr ''other''), ps_name = Some ''Ana P.'', ps_course = None,
     ps_class = None, ps_birthDate = None, ps_registrationNumber = None,
     ps_guardianName = None, ps_guardianContact = Some ''11911112222'', ps_createdAt = None,
     ps_createdBy = None, ps_updatedAt = Some ''never'', ps_updatedBy = None\<rparr>"

definition rewording :: adaptation_partial where
  "rewording = \<lparr>pa_id = Some (JStr ''other''), pa_studentId = None,
     pa_description = Some ''Prova oral'', pa_justification = None, pa_date = None,
     pa_createdAt = None, pa_createdBy = None, pa_updatedAt = None\<rparr>"

definition regrading :: report_partial where
  "regrading = \<lparr>pr_id = Some (JStr ''other''), pr_studentId = None, pr_teacherId = None,
     pr_teacherName = None, pr_subject = None, pr_date = None, pr_result = Some positivo,
     pr_description = None, pr_createdAt = None, pr_updatedAt = None\<rparr>"

section \<open>Auxiliary facts\<close>

lemma length_filter_eq_conv: "length (filter P xs) = length xs \<longleftrightarrow> (\<forall>x\<in>set xs. P x)"
  by (metis filter_id_conv length_filter_less less_irrefl filter_True)

lemma findIndex_None: "findIndex p xs = None \<longleftrightarrow> find p xs = None"
  by (induction xs) (auto split: option.splits)

lemma findIndex_Some:
  "findIndex p xs = Some i \<Longrightarrow> i < length xs \<and> find p xs = Some (xs ! i)"
  by (induction xs arbitrary: i) (auto split: option.splits if_splits)

lemma findIndex_of_find:
  assumes "find p xs = Some x"
  obtains i where "findIndex p xs = Some i" "i < length xs" "xs ! i = x"
proof -
  from assms have "findIndex p xs \<noteq> None"
    by (simp add: findIndex_None)
  then obtain i where i: "findIndex p xs = Some i"
    by auto
  with findIndex_Some [OF i] assms that show thesis
    by auto
qed

lemma find_Some_holds: "find p xs = Some x \<Longrightarrow> p x"
  by (auto simp: find_Some_iff)

lemmas store_defs = getLocalUsers_def studentStorage_getAll_def adaptationStorage_getAll_def
  reportStorage_getAll_def authStorage_getCurrentUser_def

lemmas sample_defs = emptyStore_def sampleStore_def maria_def ana_def extraTime_def
  otherAdaptation_def mathReport_def

section \<open>Reads of the Local Record Store\<close>

lemma getFromStorage_unreadable: "unreadable got \<Longrightarrow> getFromStorage got d = d"
  by (auto simp: unreadable_def getFromStorage_def split: option.splits item.splits)

text \<open>
  C10. A read of the Local Record Store never throws: the reads are total functions
  with no error result, the \<^verbatim>\<open>SyntaxError\<close> of \<^verbatim>\<open>JSON.parse\<close> being caught in
  \<open>getFromStorage\<close>. When the stored item is missing or is not parseable JSON, \<open>getAll\<close>
  is the empty collection, \<open>getById\<close> is none and \<open>getByStudent\<close> is empty, for
  students, adaptations and reports alike.
\<close>

theorem reads_fall_back_to_default:
  "(unreadable (students_item w) \<longrightarrow>
      studentStorage_getAll w = [] \<and> studentStorage_getById i w = None) \<and>
   (unreadable (adaptations_item w) \<longrightarrow>
      adaptationStorage_getAll w = [] \<and> adaptationStorage_getByStudent i w = []) \<and>
   (unreadable (reports_item w) \<longrightarrow>
      reportStorage_getAll w = [] \<and> reportStorage_getByStudent i w = []) \<and>
   (unreadable (users_item w) \<longrightarrow> getLocalUsers w = []) \<and>
   (unreadable (current_user_item w) \<longrightarrow> authStorage_getCurrentUser w = None)"
  by (simp add: getFromStorage_unreadable studentStorage_getAll_def studentStorage_getById_def
      adaptationStorage_getAll_def adaptationStorage_getByStudent_def reportStorage_getAll_def
      reportStorage_getByStudent_def getLocalUsers_def authStorage_getCurrentUser_def)

theorem reads_fall_back_to_default_witness:
  "unreadable (students_item (emptyStore\<lparr>students_item := Some Malformed\<rparr>)) \<and>
   studentStorage_getAll (emptyStore\<lparr>students_item := Some Malformed\<rparr>) = [] \<and>
   studentStorage_getById ''s1'' (emptyStore\<lparr>students_item := Some Malformed\<rparr>) = None \<and>
   unreadable (adaptations_item (emptyStore\<lparr>students_item := Some Malformed\<rparr>)) \<and>
   adaptationStorage_getByStudent ''s1'' (emptyStore\<lparr>students_item := Some Malformed\<rparr>) = [] \<and>
   unreadable (reports_item (emptyStore\<lparr>students_item := Some Malformed\<rparr>)) \<and>
   reportStorage_getByStudent ''s1'' (emptyStore\<lparr>students_item := Some Malformed\<rparr>) = [] \<and>
   unreadable (users_item (emptyStore\<lparr>students_item := Some Malformed\<rparr>)) \<and>
   getLocalUsers (emptyStore\<lparr>students_item := Some Malformed\<rparr>) = [] \<and>
   unreadable (current_user_item (emptyStore\<lparr>students_item := Some Malformed\<rparr>)) \<and>
   authStorage_getCurrentUser (emptyStore\<lparr>students_item := Some Malformed\<rparr>) = None"
proof -
  let ?w = "emptyStore\<lparr>students_item := Some Malformed\<rparr>"
  have h: "unreadable (students_item ?w)" "unreadable (adaptations_item ?w)"
    "unreadable (reports_item ?w)" "unreadable (users_item ?w)"
    "unreadable (current_user_item ?w)"
    by (simp_all add: unreadable_def emptyStore_def)
  with reads_fall_back_to_default [of ?w "''s1''"] show ?thesis
    by simp
qed

section \<open>Cascading delete\<close>

text \<open>
  C3. \<open>studentStorage_delete i\<close> returns true exactly when a student with id \<open>i\<close> is
  stored. Then the students are those with another id, the adaptations and the reports
  are those of another student, so that no student has id \<open>i\<close> and no adaptation or
  report has studentId \<open>i\<close> afterwards. When no such student is stored nothing changes.
  The function takes no remote outcome: its effect depends on the store and the id only.
\<close>

theorem student_delete_cascades:
  "fst (studentStorage_delete i w) = (\<exists>s\<in>set (studentStorage_getAll w). s_id s = i) \<and>
   ((\<exists>s\<in>set (studentStorage_getAll w). s_id s = i) \<longrightarrow>
      studentStorage_getAll (snd (studentStorage_delete i w)) =
        filter (\<lambda>s. s_id s \<noteq> i) (studentStorage_getAll w) \<and>
      adaptationStorage_getAll (snd (studentStorage_delete i w)) =
        filter (\<lambda>a. a_studentId a \<noteq> i) (adaptationStorage_getAll w) \<and>
      reportStorage_getAll (snd (studentStorage_delete i w)) =
        filter (\<lambda>r. r_studentId r \<noteq> i) (reportStorage_getAll w) \<and>
      studentStorage_getById i (snd (studentStorage_delete i w)) = None \<and>
      adaptationStorage_getByStudent i (snd (studentStorage_delete i w)) = [] \<and>
      reportStorage_getByStudent i (snd (studentStorage_delete i w)) = []) \<and>
   (\<not> (\<exists>s\<in>set (studentStorage_getAll w). s_id s = i) \<longrightarrow>
      snd (studentStorage_delete i w) = w)"
  by (auto simp: studentStorage_delete_def Let_def length_filter_eq_conv
      studentStorage_getAll_def adaptationStorage_getAll_def reportStorage_getAll_def
      adaptationStorage_deleteByStudent_def reportStorage_deleteByStudent_def
      setToStorage_def getFromStorage_def studentStorage_getById_def
      adaptationStorage_getByStudent_def reportStorage_getByStudent_def find_None_iff
      filter_empty_conv)

theorem student_delete_cascades_witness:
  "(\<exists>s\<in>set (studentStorage_getAll sampleStore). s_id s = ''s1'') \<and>
   fst (studentStorage_delete ''s1'' sampleStore) \<and>
   studentStorage_getAll (snd (studentStorage_delete ''s1'' sampleStore)) = [] \<and>
   adaptationStorage_getAll (snd (studentStorage_delete ''s1'' sampleStore)) = [otherAdaptation] \<and>
   reportStorage_getAll (snd (studentStorage_delete ''s1'' sampleStore)) = [] \<and>
   \<not> (\<exists>s\<in>set (studentStorage_getAll sampleStore). s_id s = ''s9'') \<and>
   \<not> fst (studentStorage_delete ''s9'' sampleStore) \<and>
   snd (studentStorage_delete ''s9'' sampleStore) = sampleStore"
proof -
  have s: "studentStorage_getAll sampleStore = [ana]"
    "adaptationStorage_getAll sampleStore = [extraTime, otherAdaptation]"
    "reportStorage_getAll sampleStore = [mathReport]"
    by (simp_all add: store_defs sampleStore_def getFromStorage_def)
  have h1: "\<exists>s\<in>set (studentStorage_getAll sampleStore). s_id s = ''s1''"
    by (simp add: s ana_def)
  have h2: "\<not> (\<exists>s\<in>set (studentStorage_getAll sampleStore). s_id s = ''s9'')"
    by (simp add: s ana_def)
  from student_delete_cascades [of "''s1''" sampleStore] h1
  have "fst (studentStorage_delete ''s1'' sampleStore) \<and>
    studentStorage_getAll (snd (studentStorage_delete ''s1'' sampleStore)) = [] \<and>
    adaptationStorage_getAll (snd (studentStorage_delete ''s1'' sampleStore)) = [otherAdaptation] \<and>
    reportStorage_getAll (snd (studentStorage_delete ''s1'' sampleStore)) = []"
    by (simp add: s ana_def extraTime_def otherAdaptation_def mathReport_def)
  moreover from student_delete_cascades [of "''s9''" sampleStore] h2
  have "\<not> fst (studentStorage_delete ''s9'' sampleStore) \<and>
    snd (studentStorage_delete ''s9'' sampleStore) = sampleStore"
    by simp
  ultimately show ?thesis
    using h1 h2 by simp
qed

section \<open>Update\<close>

lemma carries_spread: "carries p old (spread old p)"
  by (cases p) (simp_all add: carries_def)

lemma carriesOpt_spreadOpt: "carriesOpt p old (spreadOpt old p)"
  by (cases p) (simp_all add: carriesOpt_def)

lemma student_update_found:
  assumes "find (\<lambda>s. s_id s = i) (studentStorage_getAll w) = Some old"
  shows "\<exists>new w' index. studentStorage_update i u w = (Some new, w') \<and>
      s_id new = i \<and> s_id old = i \<and>
      s_updatedAt new = Some (clock w (tick w)) \<and>
      s_updatedBy new = map_option u_id (authStorage_getCurrentUser w) \<and>
      carries (ps_name u) (s_name old) (s_name new) \<and>
      carries (ps_course u) (s_course old) (s_course new) \<and>
      carries (ps_class u) (s_class old) (s_class new) \<and>
      carries (ps_birthDate u) (s_birthDate old) (s_birthDate new) \<and>
      carries (ps_registrationNumber u) (s_registrationNumber old) (s_registrationNumber new) \<and>
      carriesOpt (ps_guardianName u) (s_guardianName old) (s_guardianName new) \<and>
      carriesOpt (ps_guardianContact u) (s_guardianContact old) (s_guardianContact new) \<and>
      carries (ps_createdAt u) (s_createdAt old) (s_createdAt new) \<and>
      carries (ps_createdBy u) (s_createdBy old) (s_createdBy new) \<and>
      index < length (studentStorage_getAll w) \<and>
      studentStorage_getAll w ! index = old \<and>
      studentStorage_getAll w' = (studentStorage_getAll w)[index := new]"
proof -
  from assms obtain index where
    ix: "findIndex (\<lambda>s. s_id s = i) (studentStorage_getAll w) = Some index" and
    lt: "index < length (studentStorage_getAll w)" and
    old: "studentStorage_getAll w ! index = old"
    by (rule findIndex_of_find)
  from assms have "s_id old = i"
    by (rule find_Some_holds)
  with ix lt old show ?thesis
    by (simp add: studentStorage_update_def Let_def nowISO_def carries_spread carriesOpt_spreadOpt
        setToStorage_def getFromStorage_def studentStorage_getAll_def [of "_\<lparr>students_item := _\<rparr>"])
       (rule exI [of _ index], simp)
qed

lemma adaptation_update_found:
  assumes "find (\<lambda>a. a_id a = i) (adaptationStorage_getAll w) = Some old"
  shows "\<exists>new w' index. adaptationStorage_update i u w = (Some new, w') \<and>
      a_id new = i \<and> a_id old = i \<and>
      a_updatedAt new = Some (clock w (tick w)) \<and>
      carries (pa_studentId u) (a_studentId old) (a_studentId new) \<and>
      carries (pa_description u) (a_description old) (a_description new) \<and>
      carries (pa_justification u) (a_justification old) (a_justification new) \<and>
      carries (pa_date u) (a_date old) (a_date new) \<and>
      carries (pa_createdAt u) (a_createdAt old) (a_createdAt new) \<and>
      carries (pa_createdBy u) (a_createdBy old) (a_createdBy new) \<and>
      index < length (adaptationStorage_getAll w) \<and>
      adaptationStorage_getAll w ! index = old \<and>
      adaptationStorage_getAll w' = (adaptationStorage_getAll w)[index := new]"
proof -
  from assms obtain index where
    ix: "findIndex (\<lambda>a. a_id a = i) (adaptationStorage_getAll w) = Some index" and
    lt: "index < length (adaptationStorage_getAll w)" and
    old: "adaptationStorage_getAll w ! index = old"
    by (rule findIndex_of_find)
  from assms have "a_id old = i"
    by (rule find_Some_holds)
  with ix lt old show ?thesis
    by (simp add: adaptationStorage_update_def Let_def nowISO_def carries_spread
        setToStorage_def getFromStorage_def
        adaptationStorage_getAll_def [of "_\<lparr>adaptations_item := _\<rparr>"])
       (rule exI [of _ index], simp)
qed

lemma report_update_found:
  assumes "find (\<lambda>r. r_id r = i) (reportStorage_getAll w) = Some old"
  shows "\<exists>new w' index. reportStorage_update i u w = (Some new, w') \<and>
      r_id new = i \<and> r_id old = i \<and>
      r_updatedAt new = Some (clock w (tick w)) \<and>
      carries (pr_studentId u) (r_studentId old) (r_studentId new) \<and>
      carries (pr_teacherId u) (r_teacherId old) (r_teacherId new) \<and>
      carries (pr_teacherName u) (r_teacherName old) (r_teacherName new) \<and>
      carries (pr_subject u) (r_subject old) (r_subject new) \<and>
      carries (pr_date u) (r_date old) (r_date new) \<and>
      carries (pr_result u) (r_result old) (r_result new) \<and>
      carries (pr_description u) (r_description old) (r_description new) \<and>
      carries (pr_createdAt u) (r_createdAt old) (r_createdAt new) \<and>
      index < length (reportStorage_getAll w) \<and>
      reportStorage_getAll w ! index = old \<and>
      reportStorage_getAll w' = (reportStorage_getAll w)[index := new]"
proof -
  from assms obtain index where
    ix: "findIndex (\<lambda>r. r_id r = i) (reportStorage_getAll w) = Some index" and
    lt: "index < length (reportStorage_getAll w)" and
    old: "reportStorage_getAll w ! index = old"
    by (rule findIndex_of_find)
  from assms have "r_id old = i"
    by (rule find_Some_holds)
  with ix lt old show ?thesis
    by (simp add: reportStorage_update_def Let_def nowISO_def carries_spread
        setToStorage_def getFromStorage_def
        reportStorage_getAll_def [of "_\<lparr>reports_item := _\<rparr>"])
       (rule exI [of _ index], simp)
qed

lemma update_missing:
  "find (\<lambda>s. s_id s = i) (studentStorage_getAll w) = None \<Longrightarrow>
     studentStorage_update i us w = (None, w)"
  "find (\<lambda>a. a_id a = i) (adaptationStorage_getAll w) = None \<Longrightarrow>
     adaptationStorage_update i ua w = (None, w)"
  "find (\<lambda>r. r_id r = i) (reportStorage_getAll w) = None \<Longrightarrow>
     reportStorage_update i ur w = (None, w)"
  by (simp_all add: studentStorage_update_def adaptationStorage_update_def
      reportStorage_update_def Let_def findIndex_None [symmetric])

text \<open>
  C9. \<open>update i partial\<close> on students, adaptations and reports. When a record with id
  \<open>i\<close> is stored (the first such record, \<open>so\<close>, \<open>ao\<close>, \<open>ro\<close>), the call returns a
  record whose id is \<open>i\<close> whatever id the partial carries, whose \<open>updatedAt\<close> is the
  current time (and, for a student, whose \<open>updatedBy\<close> is the id of the current user, if
  any), and each of whose other fields is the partial's value when the partial has the
  field and the stored value otherwise; the returned record replaces the stored one at
  its position. When no record with id \<open>i\<close> is stored the call returns none and the
  store is unchanged.
\<close>

theorem update_preserves_and_stamps:
  "(find (\<lambda>s. s_id s = i) (studentStorage_getAll w) = Some so \<longrightarrow>
      (\<exists>new w' index. studentStorage_update i us w = (Some new, w') \<and>
        s_id new = i \<and> s_id so = i \<and>
        s_updatedAt new = Some (clock w (tick w)) \<and>
        s_updatedBy new = map_option u_id (authStorage_getCurrentUser w) \<and>
        carries (ps_name us) (s_name so) (s_name new) \<and>
        carries (ps_course us) (s_course so) (s_course new) \<and>
        carries (ps_class us) (s_class so) (s_class new) \<and>
        carries (ps_birthDate us) (s_birthDate so) (s_birthDate new) \<and>
        carries (ps_registrationNumber us) (s_registrationNumber so)
          (s_registrationNumber new) \<and>
        carriesOpt (ps_guardianName us) (s_guardianName so) (s_guardianName new) \<and>
        carriesOpt (ps_guardianContact us) (s_guardianContact so) (s_guardianContact new) \<and>
        carries (ps_createdAt us) (s_createdAt so) (s_createdAt new) \<and>
        carries (ps_createdBy us) (s_createdBy so) (s_createdBy new) \<and>
        index < length (studentStorage_getAll w) \<and>
        studentStorage_getAll w ! index = so \<and>
        studentStorage_getAll w' = (studentStorage_getAll w)[index := new])) \<and>
   (find (\<lambda>s. s_id s = i) (studentStorage_getAll w) = None \<longrightarrow>
      studentStorage_update i us w = (None, w)) \<and>
   (find (\<lambda>a. a_id a = i) (adaptationStorage_getAll w) = Some ao \<longrightarrow>
      (\<exists>new w' index. adaptationStorage_update i ua w = (Some new, w') \<and>
        a_id new = i \<and> a_id ao = i \<and>
        a_updatedAt new = Some (clock w (tick w)) \<and>
        carries (pa_studentId ua) (a_studentId ao) (a_studentId new) \<and>
        carries (pa_description ua) (a_description ao) (a_description new) \<and>
        carries (pa_justification ua) (a_justification ao) (a_justification new) \<and>
        carries (pa_date ua) (a_date ao) (a_date new) \<and>
        carries (pa_createdAt ua) (a_createdAt ao) (a_createdAt new) \<and>
        carries (pa_createdBy ua) (a_createdBy ao) (a_createdBy new) \<and>
        index < length (adaptationStorage_getAll w) \<and>
        adaptationStorage_getAll w ! index = ao \<and>
        adaptationStorage_getAll w' = (adaptationStorage_getAll w)[index := new])) \<and>
   (find (\<lambda>a. a_id a = i) (adaptationStorage_getAll w) = None \<longrightarrow>
      adaptationStorage_update i ua w = (None, w)) \<and>
   (find (\<lambda>r. r_id r = i) (reportStorage_getAll w) = Some ro \<longrightarrow>
      (\<exists>new w' index. reportStorage_update i ur w = (Some new, w') \<and>
        r_id new = i \<and> r_id ro = i \<and>
        r_updatedAt new = Some (clock w (tick w)) \<and>
        carries (pr_studentId ur) (r_studentId ro) (r_studentId new) \<and>
        carries (pr_teacherId ur) (r_teacherId ro) (r_teacherId new) \<and>
        carries (pr_teacherName ur) (r_teacherName ro) (r_teacherName new) \<and>
        carries (pr_subject ur) (r_subject ro) (r_subject new) \<and>
        carries (pr_date ur) (r_date ro) (r_date new) \<and>
        carries (pr_result ur) (r_result ro) (r_result new) \<and>
        carries (pr_description ur) (r_description ro) (r_description new) \<and>
        carries (pr_createdAt ur) (r_createdAt ro) (r_createdAt new) \<and>
        index < length (reportStorage_getAll w) \<and>
        reportStorage_getAll w ! index = ro \<and>
        reportStorage_getAll w' = (reportStorage_getAll w)[index := new])) \<and>
   (find (\<lambda>r. r_id r = i) (reportStorage_getAll w) = None \<longrightarrow>
      reportStorage_update i ur w = (None, w))"
  by (intro conjI impI student_update_found adaptation_update_found report_update_found
      update_missing)

theorem update_preserves_and_stamps_witness:
  "find (\<lambda>s. s_id s = ''s1'') (studentStorage_getAll sampleStore) = Some ana \<and>
   (\<exists>new w'. studentStorage_update ''s1'' renaming sampleStore = (Some new, w') \<and>
      s_id new = ''s1'' \<and> s_name new = ''Ana P.'' \<and> s_course new = ''Ensino Medio'' \<and>
      s_guardianContact new = Some ''11911112222'' \<and>
      s_updatedAt new = Some ''2024-03-01T10:00:00.000Z'' \<and> s_updatedBy new = Some ''u1'') \<and>
   find (\<lambda>a. a_id a = ''a1'') (adaptationStorage_getAll sampleStore) = Some extraTime \<and>
   (\<exists>new w'. adaptationStorage_update ''a1'' rewording sampleStore = (Some new, w') \<and>
      a_id new = ''a1'' \<and> a_description new = ''Prova oral'' \<and>
      a_justification new = ''Laudo'') \<and>
   find (\<lambda>r. r_id r = ''r1'') (reportStorage_getAll sampleStore) = Some mathReport \<and>
   (\<exists>new w'. reportStorage_update ''r1'' regrading sampleStore = (Some new, w') \<and>
      r_id new = ''r1'' \<and> r_result new = positivo \<and> r_subject new = ''Matematica'') \<and>
   find (\<lambda>s. s_id s = ''zz'') (studentStorage_getAll sampleStore) = None \<and>
   studentStorage_update ''zz'' renaming sampleStore = (None, sampleStore) \<and>
   find (\<lambda>a. a_id a = ''zz'') (adaptationStorage_getAll sampleStore) = None \<and>
   adaptationStorage_update ''zz'' rewording sampleStore = (None, sampleStore) \<and>
   find (\<lambda>r. r_id r = ''zz'') (reportStorage_getAll sampleStore) = None \<and>
   reportStorage_update ''zz'' regrading sampleStore = (None, sampleStore)"
proof -
  have s: "studentStorage_getAll sampleStore = [ana]"
    "adaptationStorage_getAll sampleStore = [extraTime, otherAdaptation]"
    "reportStorage_getAll sampleStore = [mathReport]"
    "authStorage_getCurrentUser sampleStore = Some maria"
    "clock sampleStore (tick sampleStore) = ''2024-03-01T10:00:00.000Z''"
    by (simp_all add: store_defs sampleStore_def emptyStore_def getFromStorage_def)
  have f: "find (\<lambda>s. s_id s = ''s1'') (studentStorage_getAll sampleStore) = Some ana"
    "find (\<lambda>a. a_id a = ''a1'') (adaptationStorage_getAll sampleStore) = Some extraTime"
    "find (\<lambda>r. r_id r = ''r1'') (reportStorage_getAll sampleStore) = Some mathReport"
    by (simp_all add: s ana_def extraTime_def mathReport_def)
  have m: "find (\<lambda>s. s_id s = ''zz'') (studentStorage_getAll sampleStore) = None"
    "find (\<lambda>a. a_id a = ''zz'') (adaptationStorage_getAll sampleStore) = None"
    "find (\<lambda>r. r_id r = ''zz'') (reportStorage_getAll sampleStore) = None"
    by (simp_all add: s ana_def extraTime_def otherAdaptation_def mathReport_def)
  note found = update_preserves_and_stamps [where w = sampleStore and us = renaming
      and ua = rewording and ur = regrading and so = ana and ao = extraTime and ro = mathReport]
  from found [of "''s1''"] f(1)
  have 1: "\<exists>new w'. studentStorage_update ''s1'' renaming sampleStore = (Some new, w') \<and>
      s_id new = ''s1'' \<and> s_name new = ''Ana P.'' \<and> s_course new = ''Ensino Medio'' \<and>
      s_guardianContact new = Some ''11911112222'' \<and>
      s_updatedAt new = Some ''2024-03-01T10:00:00.000Z'' \<and> s_updatedBy new = Some ''u1''"
    by (auto simp: s carries_def carriesOpt_def renaming_def ana_def maria_def)
  from found [of "''a1''"] f(2)
  have 2: "\<exists>new w'. adaptationStorage_update ''a1'' rewording sampleStore = (Some new, w') \<and>
      a_id new = ''a1'' \<and> a_description new = ''Prova oral'' \<and>
      a_justification new = ''Laudo''"
    by (auto simp: s carries_def rewording_def extraTime_def)
  from found [of "''r1''"] f(3)
  have 3: "\<exists>new w'. reportStorage_update ''r1'' regrading sampleStore = (Some new, w') \<and>
      r_id new = ''r1'' \<and> r_result new = positivo \<and> r_subject new = ''Matematica''"
    by (auto simp: s carries_def regrading_def mathReport_def)
  from found [of "''zz''"] m
  have 4: "studentStorage_update ''zz'' renaming sampleStore = (None, sampleStore)"
    "adaptationStorage_update ''zz'' rewording sampleStore = (None, sampleStore)"
    "reportStorage_update ''zz'' regrading sampleStore = (None, sampleStore)"
    by simp_all
  from f m 1 2 3 4 show ?thesis
    by (intro conjI)
qed

section \<open>Seeding runs once\<close>

lemma users_seeded:
  "getLocalUsers w = [] \<Longrightarrow>
   getLocalUsers (initializeDefaultUsers w) =
     [\<lparr>u_id = idSource w (tick w), u_email = ''coordenador@escola.com'', u_name = ''Maria Silva'',
       u_role = coordenador\<rparr>,
      \<lparr>u_id = idSource w (Suc (tick w)), u_email = ''professor@escola.com'', u_name = ''Joao Santos'',
       u_role = professor\<rparr>] \<and>
   students_item (initializeDefaultUsers w) = students_item w \<and>
   adaptations_item (initializeDefaultUsers w) = adaptations_item w \<and>
   reports_item (initializeDefaultUsers w) = reports_item w"
  by (simp add: initializeDefaultUsers_def getLocalUsers_def Let_def generateId_def
      setToStorage_def getFromStorage_def)

lemma users_kept: "getLocalUsers w \<noteq> [] \<Longrightarrow> initializeDefaultUsers w = w"
  by (simp add: initializeDefaultUsers_def getLocalUsers_def)

lemma data_kept: "studentStorage_getAll w \<noteq> [] \<Longrightarrow> initializeDefaultData w = w"
  by (simp add: initializeDefaultData_def studentStorage_getAll_def)

lemma data_seeded:
  assumes "studentStorage_getAll w = []"
  shows "\<exists>s1 s2 a r.
     studentStorage_getAll (initializeDefaultData w) = [s1, s2] \<and>
     adaptationStorage_getAll (initializeDefaultData w) = adaptationStorage_getAll w @ [a] \<and>
     reportStorage_getAll (initializeDefaultData w) = reportStorage_getAll w @ [r] \<and>
     users_item (initializeDefaultData w) = users_item w \<and>
     a_studentId a = s_id s1 \<and> r_studentId r = s_id s1 \<and>
     s_createdBy s1 = idOrEmpty (find (\<lambda>u. u_role u = coordenador) (getLocalUsers w)) \<and>
     s_createdBy s2 = idOrEmpty (find (\<lambda>u. u_role u = coordenador) (getLocalUsers w)) \<and>
     a_createdBy a = idOrEmpty (find (\<lambda>u. u_role u = coordenador) (getLocalUsers w)) \<and>
     r_teacherId r = idOrEmpty (find (\<lambda>u. u_role u = professor) (getLocalUsers w))"
  using assms
  by (simp add: initializeDefaultData_def store_defs Let_def generateId_def nowISO_def
      setToStorage_def getFromStorage_def)

lemma initializeStore_nonempty:
  "getLocalUsers (initializeStore w) \<noteq> [] \<and> studentStorage_getAll (initializeStore w) \<noteq> []"
proof -
  have u: "getLocalUsers (initializeDefaultUsers w) \<noteq> []"
    using users_seeded [of w] users_kept [of w] by (cases "getLocalUsers w = []") auto
  have "studentStorage_getAll (initializeDefaultData v) \<noteq> []" for v
    using data_seeded [of v] data_kept [of v] by (cases "studentStorage_getAll v = []") auto
  moreover have "getLocalUsers (initializeDefaultData v) = getLocalUsers v" for v
    using data_seeded [of v] data_kept [of v]
    by (cases "studentStorage_getAll v = []") (auto simp: getLocalUsers_def)
  ultimately show ?thesis
    using u by (simp add: initializeStore_def)
qed

text \<open>
  C8. From a store whose four collections are empty, the initializers leave exactly two
  users, a coordinator and a teacher, two students, one adaptation and one report; the
  adaptation and the report belong to the first student, the students and the adaptation
  are created by the seeded coordinator and the report's teacher is the seeded teacher.
  The users are seeded only when there are no users and the sample data only when there
  are no students; adaptations and reports that exist are kept, the seeded ones being
  appended. Running the initializers a second time changes nothing.
\<close>

theorem seeding_once:
  "(getLocalUsers w = [] \<and> studentStorage_getAll w = [] \<and> adaptationStorage_getAll w = [] \<and>
    reportStorage_getAll w = [] \<longrightarrow>
     (\<exists>c p s1 s2 a r.
        getLocalUsers (initializeStore w) = [c, p] \<and>
        u_role c = coordenador \<and> u_role p = professor \<and>
        studentStorage_getAll (initializeStore w) = [s1, s2] \<and>
        adaptationStorage_getAll (initializeStore w) = [a] \<and>
        reportStorage_getAll (initializeStore w) = [r] \<and>
        a_studentId a = s_id s1 \<and> r_studentId r = s_id s1 \<and>
        s_createdBy s1 = u_id c \<and> s_createdBy s2 = u_id c \<and>
        a_createdBy a = u_id c \<and> r_teacherId r = u_id p)) \<and>
   (getLocalUsers w \<noteq> [] \<longrightarrow> initializeDefaultUsers w = w) \<and>
   (studentStorage_getAll w \<noteq> [] \<longrightarrow> initializeDefaultData w = w) \<and>
   (\<exists>new. adaptationStorage_getAll (initializeStore w) = adaptationStorage_getAll w @ new) \<and>
   (\<exists>new. reportStorage_getAll (initializeStore w) = reportStorage_getAll w @ new) \<and>
   initializeStore (initializeStore w) = initializeStore w"
proof (intro conjI impI)
  assume e: "getLocalUsers w = [] \<and> studentStorage_getAll w = [] \<and>
    adaptationStorage_getAll w = [] \<and> reportStorage_getAll w = []"
  let ?v = "initializeDefaultUsers w"
  from e users_seeded [of w] have
    v: "studentStorage_getAll ?v = []" "adaptationStorage_getAll ?v = []"
       "reportStorage_getAll ?v = []" and
    us: "getLocalUsers ?v =
     [\<lparr>u_id = idSource w (tick w), u_email = ''coordenador@escola.com'', u_name = ''Maria Silva'',
       u_role = coordenador\<rparr>,
      \<lparr>u_id = idSource w (Suc (tick w)), u_email = ''professor@escola.com'', u_name = ''Joao Santos'',
       u_role = professor\<rparr>]"
    by (simp_all add: store_defs)
  from data_seeded [OF v(1)] v(2,3) us
  show "\<exists>c p s1 s2 a r.
        getLocalUsers (initializeStore w) = [c, p] \<and>
        u_role c = coordenador \<and> u_role p = professor \<and>
        studentStorage_getAll (initializeStore w) = [s1, s2] \<and>
        adaptationStorage_getAll (initializeStore w) = [a] \<and>
        reportStorage_getAll (initializeStore w) = [r] \<and>
        a_studentId a = s_id s1 \<and> r_studentId r = s_id s1 \<and>
        s_createdBy s1 = u_id c \<and> s_createdBy s2 = u_id c \<and>
        a_createdBy a = u_id c \<and> r_teacherId r = u_id p"
    by (auto simp: initializeStore_def getLocalUsers_def idOrEmpty_def)
next
  assume "getLocalUsers w \<noteq> []" then show "initializeDefaultUsers w = w" by (rule users_kept)
next
  assume "studentStorage_getAll w \<noteq> []" then show "initializeDefaultData w = w" by (rule data_kept)
next
  let ?v = "initializeDefaultUsers w"
  have a: "adaptationStorage_getAll ?v = adaptationStorage_getAll w"
    using users_seeded [of w] users_kept [of w]
    by (cases "getLocalUsers w = []") (auto simp: store_defs)
  show "\<exists>new. adaptationStorage_getAll (initializeStore w) = adaptationStorage_getAll w @ new"
    using data_seeded [of ?v] data_kept [of ?v] a
    by (cases "studentStorage_getAll ?v = []") (auto simp: initializeStore_def)
next
  let ?v = "initializeDefaultUsers w"
  have a: "reportStorage_getAll ?v = reportStorage_getAll w"
    using users_seeded [of w] users_kept [of w]
    by (cases "getLocalUsers w = []") (auto simp: store_defs)
  show "\<exists>new. reportStorage_getAll (initializeStore w) = reportStorage_getAll w @ new"
    using data_seeded [of ?v] data_kept [of ?v] a
    by (cases "studentStorage_getAll ?v = []") (auto simp: initializeStore_def)
next
  let ?v = "initializeStore w"
  from initializeStore_nonempty [of w]
  have "initializeDefaultUsers ?v = ?v" "initializeDefaultData ?v = ?v"
    by (simp_all add: users_kept data_kept)
  then show "initializeStore ?v = ?v"
    by (simp add: initializeStore_def [of ?v])
qed


theorem seeding_once_witness:
  "getLocalUsers emptyStore = [] \<and> studentStorage_getAll emptyStore = [] \<and>
   adaptationStorage_getAll emptyStore = [] \<and> reportStorage_getAll emptyStore = [] \<and>
   length (getLocalUsers (initializeStore emptyStore)) = 2 \<and>
   map u_role (getLocalUsers (initializeStore emptyStore)) = [coordenador, professor] \<and>
   length (studentStorage_getAll (initializeStore emptyStore)) = 2 \<and>
   length (adaptationStorage_getAll (initializeStore emptyStore)) = 1 \<and>
   length (reportStorage_getAll (initializeStore emptyStore)) = 1 \<and>
   getLocalUsers sampleStore \<noteq> [] \<and> initializeDefaultUsers sampleStore = sampleStore \<and>
   studentStorage_getAll sampleStore \<noteq> [] \<and> initializeDefaultData sampleStore = sampleStore"
proof -
  have e: "getLocalUsers emptyStore = [] \<and> studentStorage_getAll emptyStore = [] \<and>
    adaptationStorage_getAll emptyStore = [] \<and> reportStorage_getAll emptyStore = []"
    by (simp add: store_defs emptyStore_def getFromStorage_def)
  have n: "getLocalUsers sampleStore \<noteq> []" "studentStorage_getAll sampleStore \<noteq> []"
    by (simp_all add: store_defs sampleStore_def getFromStorage_def)
  from seeding_once [of emptyStore] e
  have 1: "length (getLocalUsers (initializeStore emptyStore)) = 2 \<and>
    map u_role (getLocalUsers (initializeStore emptyStore)) = [coordenador, professor] \<and>
    length (studentStorage_getAll (initializeStore emptyStore)) = 2 \<and>
    length (adaptationStorage_getAll (initializeStore emptyStore)) = 1 \<and>
    length (reportStorage_getAll (initializeStore emptyStore)) = 1"
    by auto
  from seeding_once [of sampleStore] n
  have 2: "initializeDefaultUsers sampleStore = sampleStore"
    "initializeDefaultData sampleStore = sampleStore"
    by simp_all
  from e n 1 2 show ?thesis
    by simp
qed

section \<open>Merge-on-Read\<close>

lemma map_of_Map_set: "map_of (Map_set m k v) = (map_of m)(k \<mapsto> v)"
  by (induction m k v rule: Map_set.induct) (auto simp: fun_eq_iff)

lemma keys_Map_set: "fst ` set (Map_set m k v) = insert k (fst ` set m)"
  by (induction m k v rule: Map_set.induct) auto

lemma Map_set_present: "k \<in> fst ` set m \<Longrightarrow> map fst (Map_set m k v) = map fst m"
  by (induction m k v rule: Map_set.induct) auto

lemma Map_set_fresh: "k \<notin> fst ` set m \<Longrightarrow> Map_set m k v = m @ [(k, v)]"
  by (induction m k v rule: Map_set.induct) auto

lemma distinct_Map_set: "distinct (map fst m) \<Longrightarrow> distinct (map fst (Map_set m k v))"
  by (cases "k \<in> fst ` set m") (simp_all add: Map_set_present Map_set_fresh)

lemma set_Map_set: "set (Map_set m k v) \<subseteq> insert (k, v) (set m)"
  by (induction m k v rule: Map_set.induct) auto

lemma alist_eqI:
  "map fst xs = map fst ys \<Longrightarrow> distinct (map fst xs) \<Longrightarrow> map_of xs = map_of ys \<Longrightarrow> xs = ys"
proof (induction xs arbitrary: ys)
  case Nil
  then show ?case by simp
next
  case (Cons x xs)
  then obtain y ys' where ys: "ys = y # ys'"
    by (cases ys) auto
  obtain k v where x: "x = (k, v)"
    by (cases x)
  obtain k' v' where y: "y = (k', v')"
    by (cases y)
  from Cons.prems(1) ys x y have k: "k' = k" and keys: "map fst xs = map fst ys'"
    by auto
  from Cons.prems(2) x have fresh: "k \<notin> set (map fst xs)" and d: "distinct (map fst xs)"
    by auto
  from Cons.prems(3) have "map_of (x # xs) k = map_of ys k"
    by (simp only:)
  with ys x y k have v: "v' = v"
    by simp
  have "map_of xs = map_of ys'"
  proof
    fix j
    show "map_of xs j = map_of ys' j"
    proof (cases "j = k")
      case True
      from fresh have "map_of xs k = None"
        by (simp add: map_of_eq_None_iff)
      moreover from fresh keys have "map_of ys' k = None"
        by (simp add: map_of_eq_None_iff del: set_map add: set_map [symmetric])
      ultimately show ?thesis
        using True by simp
    next
      case False
      with Cons.prems(3) ys x y k show ?thesis
        by (auto simp: fun_eq_iff split: if_splits)
    qed
  qed
  with Cons.IH [OF keys d] ys x y k v show ?case
    by simp
qed

lemma keyed_Map_set: "keyed key m \<Longrightarrow> key a = Inr k \<Longrightarrow> keyed key (Map_set m k a)"
  using set_Map_set [of m k a] by (auto simp: keyed_def distinct_Map_set list_all_iff)

lemma keyed_setEach: "keyed key m \<Longrightarrow> setEach key m xs = Inr m' \<Longrightarrow> keyed key m'"
proof (induction xs arbitrary: m)
  case Nil
  then show ?case by simp
next
  case (Cons a xs)
  then obtain k where k: "key a = Inr k" and rest: "setEach key (Map_set m k a) xs = Inr m'"
    by (auto split: sum.splits)
  from Cons.IH [OF keyed_Map_set [OF Cons.prems(1) k] rest] show ?case .
qed

lemma setEach_replay: "keyed key (pre @ suf) \<Longrightarrow> setEach key pre (map snd suf) = Inr (pre @ suf)"
proof (induction suf arbitrary: pre)
  case Nil
  then show ?case by simp
next
  case (Cons p suf)
  obtain k v where p: "p = (k, v)"
    by (cases p)
  from Cons.prems p have kv: "key v = Inr k" and fresh: "k \<notin> fst ` set pre"
    by (auto simp: keyed_def)
  from Cons.prems p have "keyed key ((pre @ [(k, v)]) @ suf)"
    by simp
  from Cons.IH [OF this] kv fresh p show ?case
    by (simp add: Map_set_fresh)
qed

lemma setEach_keys:
  "setEach key m xs = Inr m' \<Longrightarrow>
   fst ` set m \<subseteq> fst ` set m' \<and> (\<forall>x\<in>set xs. \<exists>k. key x = Inr k \<and> k \<in> fst ` set m')"
proof (induction xs arbitrary: m)
  case Nil
  then show ?case by simp
next
  case (Cons a xs)
  then obtain k where k: "key a = Inr k" and rest: "setEach key (Map_set m k a) xs = Inr m'"
    by (auto split: sum.splits)
  from Cons.IH [OF rest] k show ?case
    by (auto simp: keys_Map_set)
qed

lemma setEach_same_keys:
  "(\<forall>x\<in>set xs. \<exists>k. key x = Inr k \<and> k \<in> fst ` set m) \<Longrightarrow>
   \<exists>m'. setEach key m xs = Inr m' \<and> map fst m' = map fst m"
proof (induction xs arbitrary: m)
  case Nil
  then show ?case by simp
next
  case (Cons a xs)
  then obtain k where k: "key a = Inr k" "k \<in> fst ` set m"
    by auto
  from Cons.prems have "\<forall>x\<in>set xs. \<exists>j. key x = Inr j \<and> j \<in> fst ` set (Map_set m k a)"
    by (auto simp: keys_Map_set)
  from Cons.IH [OF this] k show ?case
    by (simp add: Map_set_present)
qed

lemma find_snoc:
  "find P (xs @ [a]) = (case find P xs of None \<Rightarrow> (if P a then Some a else None) | Some x \<Rightarrow> Some x)"
  by (induction xs) auto

lemma setEach_values:
  "setEach key m xs = Inr m' \<Longrightarrow>
   map_of m' k =
     (case find (\<lambda>x. key x = Inr k) (rev xs) of None \<Rightarrow> map_of m k | Some x \<Rightarrow> Some x)"
proof (induction xs arbitrary: m)
  case Nil
  then show ?case by simp
next
  case (Cons a xs)
  then obtain j where j: "key a = Inr j" and rest: "setEach key (Map_set m j a) xs = Inr m'"
    by (auto split: sum.splits)
  from Cons.IH [OF rest] j show ?case
    by (auto simp: map_of_Map_set find_snoc split: option.splits)
qed

lemma distinct_setEach:
  "distinct (map fst m) \<Longrightarrow> setEach key m xs = Inr m' \<Longrightarrow> distinct (map fst m')"
proof (induction xs arbitrary: m)
  case Nil
  then show ?case by simp
next
  case (Cons a xs)
  then obtain k where rest: "setEach key (Map_set m k a) xs = Inr m'"
    by (auto split: sum.splits)
  from Cons.IH [OF distinct_Map_set [OF Cons.prems(1)] rest] show ?case .
qed

lemma setEach_again:
  assumes d: "distinct (map fst m)" and run: "setEach key m xs = Inr m'"
  shows "setEach key m' xs = Inr m'"
proof -
  from setEach_keys [OF run] have "\<forall>x\<in>set xs. \<exists>k. key x = Inr k \<and> k \<in> fst ` set m'"
    by simp
  from setEach_same_keys [OF this] obtain m2 where
    m2: "setEach key m' xs = Inr m2" and keys: "map fst m2 = map fst m'"
    by auto
  have "map_of m2 k = map_of m' k" for k
    using setEach_values [OF m2, of k] setEach_values [OF run, of k]
    by (simp split: option.splits)
  then have "map_of m2 = map_of m'"
    by (simp add: fun_eq_iff)
  with keys distinct_setEach [OF d run] have "m2 = m'"
    by (metis alist_eqI)
  with m2 show ?thesis
    by simp
qed

lemma merged_again:
  assumes "merged key remoteItems localItems = Inr out"
  shows "merged key (JArr out) localItems = Inr out"
proof -
  from assms obtain m1 m2 where
    m1: "setEach key [] (asArray remoteItems) = Inr m1" and
    m2: "setEach key m1 localItems = Inr m2" and out: "out = map snd m2"
    by (auto simp: merged_def split: sum.splits)
  have "keyed key []"
    by (simp add: keyed_def)
  from keyed_setEach [OF this m1] have k1: "keyed key m1" .
  from keyed_setEach [OF k1 m2] have "keyed key ([] @ m2)"
    by simp
  from setEach_replay [OF this] have "setEach key [] (map snd m2) = Inr m2"
    by simp
  moreover from k1 have "distinct (map fst m1)"
    by (simp add: keyed_def)
  from setEach_again [OF this m2] have "setEach key m2 localItems = Inr m2" .
  ultimately show ?thesis
    by (simp add: merged_def out)
qed

lemma merged_distinct_keys:
  assumes "merged key remoteItems localItems = Inr out"
  shows "\<exists>ks. map key out = map Inr ks \<and> distinct ks"
proof -
  from assms obtain m1 m2 where
    m1: "setEach key [] (asArray remoteItems) = Inr m1" and
    m2: "setEach key m1 localItems = Inr m2" and out: "out = map snd m2"
    by (auto simp: merged_def split: sum.splits)
  have "keyed key []"
    by (simp add: keyed_def)
  from keyed_setEach [OF keyed_setEach [OF this m1] m2] have k: "keyed key m2" .
  then have "map key (map snd m2) = map Inr (map fst m2)"
    by (auto simp: keyed_def list_all_iff)
  with k out show ?thesis
    by (intro exI [of _ "map fst m2"]) (simp add: keyed_def)
qed

lemma loadReport_again:
  "loadReport stringify toString None fetched studentId w
     (loadReport stringify toString None fetched studentId w pg) =
   loadReport stringify toString None fetched studentId w pg"
  by (simp add: loadReport_def Let_def split: sum.splits)

text \<open>
  C4. Merge-on-Read is idempotent. Merging the merged entries with the same local
  entries again gives the same entries, in the same order, and the merged entries have
  pairwise distinct keys; this holds for adaptations and reports alike, which go through
  the same \<open>merged\<close>, and whatever \<^verbatim>\<open>JSON.stringify\<close> and \<^verbatim>\<open>String\<close> return.
  Running \<open>loadReport\<close> a second time with the same remote result and the same store
  leaves the page as the first run left it.
\<close>

theorem merge_on_read_idempotent:
  "(merged (mergeKey stringify toString) remoteItems localItems = Inr out \<longrightarrow>
      merged (mergeKey stringify toString) (JArr out) localItems = Inr out \<and>
      (\<exists>ks. map (mergeKey stringify toString) out = map Inr ks \<and> distinct ks)) \<and>
   loadReport stringify toString None fetched studentId w
     (loadReport stringify toString None fetched studentId w pg) =
   loadReport stringify toString None fetched studentId w pg"
  using merged_again [of "mergeKey stringify toString" remoteItems localItems out]
    merged_distinct_keys [of "mergeKey stringify toString" remoteItems localItems out]
    loadReport_again [of stringify toString fetched studentId w pg]
  by blast

theorem merge_on_read_idempotent_witness:
  "merged (mergeKey (\<lambda>v. ''{}'') (\<lambda>v. ''7''))
     (JArr [JObj [(''id'', JStr ''a1''), (''description'', JStr ''remote copy'')],
            JObj [(''id'', JNum 7)]])
     [adaptation_json extraTime] =
     Inr [adaptation_json extraTime, JObj [(''id'', JNum 7)]] \<and>
   merged (mergeKey (\<lambda>v. ''{}'') (\<lambda>v. ''7''))
     (JArr [adaptation_json extraTime, JObj [(''id'', JNum 7)]])
     [adaptation_json extraTime] =
     Inr [adaptation_json extraTime, JObj [(''id'', JNum 7)]]"
proof -
  have h: "merged (mergeKey (\<lambda>v. ''{}'') (\<lambda>v. ''7''))
     (JArr [JObj [(''id'', JStr ''a1''), (''description'', JStr ''remote copy'')],
            JObj [(''id'', JNum 7)]])
     [adaptation_json extraTime] =
     Inr [adaptation_json extraTime, JObj [(''id'', JNum 7)]]"
    by (simp add: merged_def mergeKey_def truthyValue_def String'_def adaptation_json_def
        extraTime_def optKey_def)
  with merge_on_read_idempotent [of "\<lambda>v. ''{}''" "\<lambda>v. ''7''"
      "JArr [JObj [(''id'', JStr ''a1''), (''description'', JStr ''remote copy'')],
            JObj [(''id'', JNum 7)]]"
      "[adaptation_json extraTime]" "[adaptation_json extraTime, JObj [(''id'', JNum 7)]]"]
  show ?thesis
    by blast
qed

section \<open>List operations of the Remote API Client\<close>

lemmas api_defs = api_getStudents_def api_getAdaptations_def api_getReports_def apiFetch_def

text \<open>
  C5, as the code has it. For the three list operations and every body the request
  resolves to: an array is returned as it is; an object whose \<^verbatim>\<open>value\<close> is an array
  gives that array; otherwise an object whose entity-named key (\<^verbatim>\<open>students\<close>,
  \<^verbatim>\<open>adaptations\<close>, \<^verbatim>\<open>reports\<close>) is an array gives that array; an object with neither,
  and a body that is no array and no object, give the empty list. When the request
  fails with status 404, listing adaptations and listing reports give the empty list;
  listing students has no such handler and fails with the error of the request.
\<close>

theorem list_operations_unwrap:
  "(remote (GET (API_URL @ ''/students'')) = Inr (JArr xs) \<longrightarrow>
      fst (api_getStudents remote) = Inr xs) \<and>
   (remote (GET (API_URL @ ''/students'')) = Inr (JObj kvs) \<and>
    map_of kvs ''value'' = Some (JArr xs) \<longrightarrow>
      fst (api_getStudents remote) = Inr xs) \<and>
   (remote (GET (API_URL @ ''/students'')) = Inr (JObj kvs) \<and>
    arrayAt kvs ''value'' = None \<and> map_of kvs ''students'' = Some (JArr xs) \<longrightarrow>
      fst (api_getStudents remote) = Inr xs) \<and>
   (remote (GET (API_URL @ ''/students'')) = Inr (JObj kvs) \<and>
    arrayAt kvs ''value'' = None \<and> arrayAt kvs ''students'' = None \<longrightarrow>
      fst (api_getStudents remote) = Inr []) \<and>
   (remote (GET (API_URL @ ''/students'')) = Inr v \<and> primitive v \<longrightarrow>
      fst (api_getStudents remote) = Inr []) \<and>
   (remote (GET (API_URL @ ''/students'')) = Inl err \<longrightarrow>
      fst (api_getStudents remote) = Inl err) \<and>
   (remote (GET (API_URL @ ''/adaptations/'' @ sid)) = Inr (JArr xs) \<longrightarrow>
      fst (api_getAdaptations remote sid) = Inr xs) \<and>
   (remote (GET (API_URL @ ''/adaptations/'' @ sid)) = Inr (JObj kvs) \<and>
    map_of kvs ''value'' = Some (JArr xs) \<longrightarrow>
      fst (api_getAdaptations remote sid) = Inr xs) \<and>
   (remote (GET (API_URL @ ''/adaptations/'' @ sid)) = Inr (JObj kvs) \<and>
    arrayAt kvs ''value'' = None \<and> map_of kvs ''adaptations'' = Some (JArr xs) \<longrightarrow>
      fst (api_getAdaptations remote sid) = Inr xs) \<and>
   (remote (GET (API_URL @ ''/adaptations/'' @ sid)) = Inr (JObj kvs) \<and>
    arrayAt kvs ''value'' = None \<and> arrayAt kvs ''adaptations'' = None \<longrightarrow>
      fst (api_getAdaptations remote sid) = Inr []) \<and>
   (remote (GET (API_URL @ ''/adaptations/'' @ sid)) = Inr v \<and> primitive v \<longrightarrow>
      fst (api_getAdaptations remote sid) = Inr []) \<and>
   (remote (GET (API_URL @ ''/adaptations/'' @ sid)) = Inl err \<and> status err = Some 404 \<longrightarrow>
      fst (api_getAdaptations remote sid) = Inr []) \<and>
   (remote (GET (API_URL @ ''/reports/'' @ sid)) = Inr (JArr xs) \<longrightarrow>
      fst (api_getReports remote sid) = Inr xs) \<and>
   (remote (GET (API_URL @ ''/reports/'' @ sid)) = Inr (JObj kvs) \<and>
    map_of kvs ''value'' = Some (JArr xs) \<longrightarrow>
      fst (api_getReports remote sid) = Inr xs) \<and>
   (remote (GET (API_URL @ ''/reports/'' @ sid)) = Inr (JObj kvs) \<and>
    arrayAt kvs ''value'' = None \<and> map_of kvs ''reports'' = Some (JArr xs) \<longrightarrow>
      fst (api_getReports remote sid) = Inr xs) \<and>
   (remote (GET (API_URL @ ''/reports/'' @ sid)) = Inr (JObj kvs) \<and>
    arrayAt kvs ''value'' = None \<and> arrayAt kvs ''reports'' = None \<longrightarrow>
      fst (api_getReports remote sid) = Inr []) \<and>
   (remote (GET (API_URL @ ''/reports/'' @ sid)) = Inr v \<and> primitive v \<longrightarrow>
      fst (api_getReports remote sid) = Inr []) \<and>
   (remote (GET (API_URL @ ''/reports/'' @ sid)) = Inl err \<and> status err = Some 404 \<longrightarrow>
      fst (api_getReports remote sid) = Inr [])"
  by (cases v) (simp_all add: api_defs primitive_def)

text \<open>
  The 404 clause of C5 does not hold for listing students: the error reaches the caller.
\<close>

theorem students_404_counterexample:
  "status (HttpError 404 ''Not Found'') = Some 404 \<and>
   fst (api_getStudents notFoundRemote) = Inl (HttpError 404 ''Not Found'') \<and>
   fst (api_getStudents notFoundRemote) \<noteq> Inr []"
  by (simp add: api_defs notFoundRemote_def)

theorem list_operations_unwrap_witness:
  "notFoundRemote (GET (API_URL @ ''/students'')) = Inl (HttpError 404 ''Not Found'') \<and>
   status (HttpError 404 ''Not Found'') = Some 404 \<and>
   answering (JStr ''oops'') (GET (API_URL @ ''/students'')) = Inr (JStr ''oops'') \<and>
   primitive (JStr ''oops'') \<and>
   arrayAt [(''total'', JNum 0)] ''value'' = None \<and>
   arrayAt [(''total'', JNum 0)] ''students'' = None \<and>
   arrayAt [(''students'', JArr [JNum 1]), (''adaptations'', JArr [JNum 2]), (''reports'', JArr [JNum 3])] ''value'' = None \<and>
   fst (api_getStudents (answering (JArr [JNum 1]))) = Inr [JNum 1] \<and>
   fst (api_getAdaptations (answering (JArr [JNum 1])) ''s1'') = Inr [JNum 1] \<and>
   fst (api_getReports (answering (JArr [JNum 1])) ''s1'') = Inr [JNum 1] \<and>
   fst (api_getStudents (answering (JObj [(''value'', JArr [JNum 1]), (''students'', JArr [])]))) = Inr [JNum 1] \<and>
   fst (api_getAdaptations (answering (JObj [(''value'', JArr [JNum 1]), (''students'', JArr [])])) ''s1'') = Inr [JNum 1] \<and>
   fst (api_getReports (answering (JObj [(''value'', JArr [JNum 1]), (''students'', JArr [])])) ''s1'') = Inr [JNum 1] \<and>
   fst (api_getStudents (answering (JObj [(''students'', JArr [JNum 1]), (''adaptations'', JArr [JNum 2]), (''reports'', JArr [JNum 3])]))) = Inr [JNum 1] \<and>
   fst (api_getAdaptations (answering (JObj [(''students'', JArr [JNum 1]), (''adaptations'', JArr [JNum 2]), (''reports'', JArr [JNum 3])])) ''s1'') = Inr [JNum 2] \<and>
   fst (api_getReports (answering (JObj [(''students'', JArr [JNum 1]), (''adaptations'', JArr [JNum 2]), (''reports'', JArr [JNum 3])])) ''s1'') = Inr [JNum 3] \<and>
   fst (api_getStudents (answering (JObj [(''total'', JNum 0)]))) = Inr [] \<and>
   fst (api_getAdaptations (answering (JObj [(''total'', JNum 0)])) ''s1'') = Inr [] \<and>
   fst (api_getReports (answering (JObj [(''total'', JNum 0)])) ''s1'') = Inr [] \<and>
   fst (api_getStudents (answering (JStr ''oops''))) = Inr [] \<and>
   fst (api_getAdaptations (answering (JStr ''oops'')) ''s1'') = Inr [] \<and>
   fst (api_getReports (answering (JStr ''oops'')) ''s1'') = Inr [] \<and>
   fst (api_getAdaptations notFoundRemote ''s1'') = Inr [] \<and>
   fst (api_getReports notFoundRemote ''s1'') = Inr [] \<and>
   fst (api_getStudents notFoundRemote) = Inl (HttpError 404 ''Not Found'')"
proof -
  have r: "answering b req = Inr b" for b req
    by (simp add: answering_def)
  have n: "notFoundRemote req = Inl (HttpError 404 ''Not Found'')" for req
    by (simp add: notFoundRemote_def)
  have p: "primitive (JStr ''oops'')"
    by (simp add: primitive_def)
  from list_operations_unwrap [where remote = "answering (JArr [JNum 1])" and sid = "''s1''"
      and xs = "[JNum 1]"]
  have a0: "fst (api_getStudents (answering (JArr [JNum 1]))) = Inr [JNum 1] \<and>
    fst (api_getAdaptations (answering (JArr [JNum 1])) ''s1'') = Inr [JNum 1] \<and>
    fst (api_getReports (answering (JArr [JNum 1])) ''s1'') = Inr [JNum 1]"
    by (simp add: r p)
  from list_operations_unwrap [where remote = "answering (JObj [(''value'', JArr [JNum 1]), (''students'', JArr [])])" and sid = "''s1''"
      and kvs = "[(''value'', JArr [JNum 1]), (''students'', JArr [])]" and xs = "[JNum 1]"]
  have v0: "fst (api_getStudents (answering (JObj [(''value'', JArr [JNum 1]), (''students'', JArr [])]))) = Inr [JNum 1] \<and>
    fst (api_getAdaptations (answering (JObj [(''value'', JArr [JNum 1]), (''students'', JArr [])])) ''s1'') = Inr [JNum 1] \<and>
    fst (api_getReports (answering (JObj [(''value'', JArr [JNum 1]), (''students'', JArr [])])) ''s1'') = Inr [JNum 1]"
    by (simp add: r p)
  note E = list_operations_unwrap [where remote = "answering (JObj [(''students'', JArr [JNum 1]), (''adaptations'', JArr [JNum 2]), (''reports'', JArr [JNum 3])])" and sid = "''s1''"
      and kvs = "[(''students'', JArr [JNum 1]), (''adaptations'', JArr [JNum 2]), (''reports'', JArr [JNum 3])]"]
  from E [where xs = "[JNum 1]"] E [where xs = "[JNum 2]"] E [where xs = "[JNum 3]"]
  have e0: "fst (api_getStudents (answering (JObj [(''students'', JArr [JNum 1]), (''adaptations'', JArr [JNum 2]), (''reports'', JArr [JNum 3])]))) = Inr [JNum 1] \<and>
    fst (api_getAdaptations (answering (JObj [(''students'', JArr [JNum 1]), (''adaptations'', JArr [JNum 2]), (''reports'', JArr [JNum 3])])) ''s1'') = Inr [JNum 2] \<and>
    fst (api_getReports (answering (JObj [(''students'', JArr [JNum 1]), (''adaptations'', JArr [JNum 2]), (''reports'', JArr [JNum 3])])) ''s1'') = Inr [JNum 3]"
    by (simp add: r p)
  from list_operations_unwrap [where remote = "answering (JObj [(''total'', JNum 0)])" and sid = "''s1''"
      and kvs = "[(''total'', JNum 0)]"]
  have n0: "fst (api_getStudents (answering (JObj [(''total'', JNum 0)]))) = Inr [] \<and>
    fst (api_getAdaptations (answering (JObj [(''total'', JNum 0)])) ''s1'') = Inr [] \<and>
    fst (api_getReports (answering (JObj [(''total'', JNum 0)])) ''s1'') = Inr []"
    by (simp add: r p)
  from list_operations_unwrap [where remote = "answering (JStr ''oops'')" and sid = "''s1''"
      and v = "JStr ''oops''"]
  have p0: "fst (api_getStudents (answering (JStr ''oops''))) = Inr [] \<and>
    fst (api_getAdaptations (answering (JStr ''oops'')) ''s1'') = Inr [] \<and>
    fst (api_getReports (answering (JStr ''oops'')) ''s1'') = Inr []"
    by (simp add: r p)
  from list_operations_unwrap [where remote = notFoundRemote and sid = "''s1''"
      and err = "HttpError 404 ''Not Found''"]
  have f0: "fst (api_getAdaptations notFoundRemote ''s1'') = Inr [] \<and>
    fst (api_getReports notFoundRemote ''s1'') = Inr [] \<and>
    fst (api_getStudents notFoundRemote) = Inl (HttpError 404 ''Not Found'')"
    by (simp add: n)
  from a0 v0 e0 n0 p0 f0 show ?thesis
    by (simp add: r n p)
qed

section \<open>Dual write: update\<close>

lemma find_list_update:
  "findIndex p xs = Some i \<Longrightarrow> p y \<Longrightarrow> find p (xs[i := y]) = Some y"
  by (induction xs arbitrary: i) (auto split: option.splits if_splits)

lemma adaptation_update_stored:
  assumes "find (\<lambda>a. a_id a = i) (adaptationStorage_getAll w) = Some old"
  shows "\<exists>new w'. adaptationStorage_update i u w = (Some new, w') \<and>
      a_id new = i \<and>
      carries (pa_description u) (a_description old) (a_description new) \<and>
      carries (pa_justification u) (a_justification old) (a_justification new) \<and>
      carries (pa_date u) (a_date old) (a_date new) \<and>
      find (\<lambda>a. a_id a = i) (adaptationStorage_getAll w') = Some new"
proof -
  from assms obtain index where
    ix: "findIndex (\<lambda>a. a_id a = i) (adaptationStorage_getAll w) = Some index" and
    lt: "index < length (adaptationStorage_getAll w)" and
    old: "adaptationStorage_getAll w ! index = old"
    by (rule findIndex_of_find)
  with find_list_update [OF ix, where y = "y :: adaptation" for y] show ?thesis
    by (simp add: adaptationStorage_update_def Let_def nowISO_def carries_spread
        setToStorage_def getFromStorage_def
        adaptationStorage_getAll_def [of "_\<lparr>adaptations_item := _\<rparr>"])
qed

text \<open>
  C6. An adaptation is edited with a filled form whose date converts, and a copy with
  its id is stored locally. Then \<open>handleSubmit\<close> reports no error and the local copy
  carries the submitted description, justification and date under the same id, whatever
  the remote service answers. When the PUT on the flat path fails with status 404, the
  requests sent are exactly that PUT followed by one PUT on the nested path
  \<^verbatim>\<open>/adaptations/{studentId}/{id}\<close>; otherwise the flat PUT is the only request.
\<close>

theorem update_retries_nested_path:
  assumes filled: "fd_description fd \<noteq> [] \<and> fd_justification fd \<noteq> [] \<and> fd_date fd \<noteq> []"
    and date: "toISO (fd_date fd) = Some d"
    and stored: "find (\<lambda>a. a_id a = a_id existing) (adaptationStorage_getAll w) = Some old"
  shows "\<exists>out w' new.
      handleSubmit toISO remote studentId (Some existing) fd w = (out, w') \<and>
      sub_error out = [] \<and> sub_onSuccess out = Some (Some new) \<and>
      find (\<lambda>a. a_id a = a_id existing) (adaptationStorage_getAll w') = Some new \<and>
      a_id new = a_id existing \<and> a_description new = fd_description fd \<and>
      a_justification new = fd_justification fd \<and> a_date new = d \<and>
      ((\<exists>err. remote (PUT (API_URL @ ''/adaptations/'' @ a_id existing) (updateBody fd d)) =
                Inl err \<and> status err = Some 404) \<longrightarrow>
         sub_requests out =
           [PUT (API_URL @ ''/adaptations/'' @ a_id existing) (updateBody fd d),
            PUT (API_URL @ ''/adaptations/'' @ studentId @ ''/'' @ a_id existing)
              (updateBody fd d)]) \<and>
      (\<not> (\<exists>err. remote (PUT (API_URL @ ''/adaptations/'' @ a_id existing) (updateBody fd d)) =
                Inl err \<and> status err = Some 404) \<longrightarrow>
         sub_requests out =
           [PUT (API_URL @ ''/adaptations/'' @ a_id existing) (updateBody fd d)])"
proof -
  let ?u = "\<lparr>pa_id = None, pa_studentId = None, pa_description = Some (fd_description fd),
     pa_justification = Some (fd_justification fd), pa_date = Some d, pa_createdAt = None,
     pa_createdBy = None, pa_updatedAt = None\<rparr>"
  from adaptation_update_stored [OF stored, of ?u] obtain new w' where
    u: "adaptationStorage_update (a_id existing) ?u w = (Some new, w')" and
    n: "a_id new = a_id existing" "a_description new = fd_description fd"
       "a_justification new = fd_justification fd" "a_date new = d"
       "find (\<lambda>a. a_id a = a_id existing) (adaptationStorage_getAll w') = Some new"
    by (auto simp: carries_def)
  from filled date u n show ?thesis
    by (auto simp: handleSubmit_def api_updateAdaptation_def apiFetch_def succeeded_def
        updateBody_def split: sum.splits prod.splits)
qed

theorem update_retries_nested_path_witness:
  "(fd_description oralExam \<noteq> [] \<and> fd_justification oralExam \<noteq> [] \<and> fd_date oralExam \<noteq> []) \<and>
   isoMidnight (fd_date oralExam) = Some ''2024-03-05T00:00:00.000Z'' \<and>
   find (\<lambda>a. a_id a = a_id extraTime) (adaptationStorage_getAll sampleStore) = Some extraTime \<and>
   nestedRemote (PUT (API_URL @ ''/adaptations/'' @ a_id extraTime)
       (updateBody oralExam ''2024-03-05T00:00:00.000Z'')) = Inl (HttpError 404 ''Not Found'') \<and>
   status (HttpError 404 ''Not Found'') = Some 404 \<and>
   map req_url (sub_requests
      (fst (handleSubmit isoMidnight nestedRemote ''s1'' (Some extraTime) oralExam sampleStore))) =
     [API_URL @ ''/adaptations/a1'', API_URL @ ''/adaptations/s1/a1''] \<and>
   map_option a_description
     (find (\<lambda>a. a_id a = ''a1'') (adaptationStorage_getAll
        (snd (handleSubmit isoMidnight nestedRemote ''s1'' (Some extraTime) oralExam sampleStore)))) =
     Some ''Prova oral'' \<and>
   \<not> (\<exists>err. acceptingRemote (PUT (API_URL @ ''/adaptations/'' @ a_id extraTime)
       (updateBody oralExam ''2024-03-05T00:00:00.000Z'')) = Inl err \<and> status err = Some 404) \<and>
   map req_url (sub_requests
      (fst (handleSubmit isoMidnight acceptingRemote ''s1'' (Some extraTime) oralExam sampleStore))) =
     [API_URL @ ''/adaptations/a1'']"
proof -
  have filled: "fd_description oralExam \<noteq> [] \<and> fd_justification oralExam \<noteq> [] \<and>
    fd_date oralExam \<noteq> []"
    by (simp add: oralExam_def)
  have date: "isoMidnight (fd_date oralExam) = Some ''2024-03-05T00:00:00.000Z''"
    by (simp add: oralExam_def isoMidnight_def)
  have stored: "find (\<lambda>a. a_id a = a_id extraTime) (adaptationStorage_getAll sampleStore) =
    Some extraTime"
    by (simp add: adaptationStorage_getAll_def getFromStorage_def sample_defs)
  have n: "nestedRemote (PUT (API_URL @ ''/adaptations/'' @ a_id extraTime)
       (updateBody oralExam ''2024-03-05T00:00:00.000Z'')) = Inl (HttpError 404 ''Not Found'')"
    by (simp add: nestedRemote_def PUT_def extraTime_def)
  have a: "\<not> (\<exists>err. acceptingRemote (PUT (API_URL @ ''/adaptations/'' @ a_id extraTime)
       (updateBody oralExam ''2024-03-05T00:00:00.000Z'')) = Inl err \<and> status err = Some 404)"
    by (simp add: acceptingRemote_def)
  have i: "a_id extraTime = ''a1''" "fd_description oralExam = ''Prova oral''"
    by (simp_all add: extraTime_def oralExam_def)
  from update_retries_nested_path [where toISO = isoMidnight and fd = oralExam
      and existing = extraTime and w = sampleStore and remote = nestedRemote
      and studentId = "''s1''", OF filled date stored] n
  have 1: "map req_url (sub_requests
      (fst (handleSubmit isoMidnight nestedRemote ''s1'' (Some extraTime) oralExam sampleStore))) =
     [API_URL @ ''/adaptations/a1'', API_URL @ ''/adaptations/s1/a1''] \<and>
   map_option a_description
     (find (\<lambda>a. a_id a = ''a1'') (adaptationStorage_getAll
        (snd (handleSubmit isoMidnight nestedRemote ''s1'' (Some extraTime) oralExam sampleStore)))) =
     Some ''Prova oral''"
    by (auto simp: i PUT_def)
  from update_retries_nested_path [where toISO = isoMidnight and fd = oralExam
      and existing = extraTime and w = sampleStore and remote = acceptingRemote
      and studentId = "''s1''", OF filled date stored] a
  have 2: "map req_url (sub_requests
      (fst (handleSubmit isoMidnight acceptingRemote ''s1'' (Some extraTime) oralExam sampleStore))) =
     [API_URL @ ''/adaptations/a1'']"
    by (auto simp: i PUT_def)
  from filled date stored n a 1 2 show ?thesis
    by simp
qed

section \<open>Dual write: create\<close>

lemma create_ids:
  "s_id (fst (studentStorage_create sd w)) = fst (generateId w)"
  "a_id (fst (adaptationStorage_create ad w)) = fst (generateId w)"
  "r_id (fst (reportStorage_create rd w)) = fst (generateId w)"
  by (simp_all add: studentStorage_create_def adaptationStorage_create_def
      reportStorage_create_def generateId_def nowISO_def Let_def split: prod.splits)

text \<open>
  C1 fails on the code. The three \<open>create\<close> operations of the Local Record Store give
  the new record the id \<^verbatim>\<open>generateId()\<close> returns and never read the \<^verbatim>\<open>id\<close> of their
  argument. So when the remote create answers with an object whose id is \<^verbatim>\<open>srv-42\<close>,
  \<open>handleSubmit\<close> passes that id on, and the record stored and handed to
  \<^verbatim>\<open>onSuccess\<close> has the generated id \<^verbatim>\<open>gen\<close> instead.
\<close>

theorem remote_id_is_dropped:
  "s_id (fst (studentStorage_create sd w)) = fst (generateId w) \<and>
   a_id (fst (adaptationStorage_create ad w)) = fst (generateId w) \<and>
   r_id (fst (reportStorage_create rd w)) = fst (generateId w) \<and>
   acceptingRemote (POST (API_URL @ ''/adaptations'')
      (createBody oralExam ''2024-03-05T00:00:00.000Z'' ''s1'')) =
     Inr (JObj [(''id'', JStr ''srv-42'')]) \<and>
   map_option (map_option a_id)
     (sub_onSuccess (fst (handleSubmit isoMidnight acceptingRemote ''s1'' None oralExam sampleStore))) =
     Some (Some ''gen'') \<and>
   map a_id (adaptationStorage_getAll
     (snd (handleSubmit isoMidnight acceptingRemote ''s1'' None oralExam sampleStore))) =
     [''a1'', ''a2'', ''gen'']"
proof -
  have "handleSubmit isoMidnight acceptingRemote ''s1'' None oralExam sampleStore =
    succeeded [Success ''Adaptacao registrada com sucesso!'']
      (Some (fst (adaptationStorage_create
         \<lparr>pa_id = Some (JStr ''srv-42''), pa_studentId = Some ''s1'',
          pa_description = Some ''Prova oral'', pa_justification = Some ''Parecer pedagogico'',
          pa_date = Some ''2024-03-05T00:00:00.000Z'', pa_createdAt = None,
          pa_createdBy = None, pa_updatedAt = None\<rparr> sampleStore)))
      [POST (API_URL @ ''/adaptations'')
         (createBody oralExam ''2024-03-05T00:00:00.000Z'' ''s1'')]
      (snd (adaptationStorage_create
         \<lparr>pa_id = Some (JStr ''srv-42''), pa_studentId = Some ''s1'',
          pa_description = Some ''Prova oral'', pa_justification = Some ''Parecer pedagogico'',
          pa_date = Some ''2024-03-05T00:00:00.000Z'', pa_createdAt = None,
          pa_createdBy = None, pa_updatedAt = None\<rparr> sampleStore))"
    by (simp add: handleSubmit_def oralExam_def isoMidnight_def acceptingRemote_def
        api_createAdaptation_def apiFetch_def createBody_def split: prod.splits)
  moreover have "map a_id (adaptationStorage_getAll (snd (adaptationStorage_create
         \<lparr>pa_id = Some (JStr ''srv-42''), pa_studentId = Some ''s1'',
          pa_description = Some ''Prova oral'', pa_justification = Some ''Parecer pedagogico'',
          pa_date = Some ''2024-03-05T00:00:00.000Z'', pa_createdAt = None,
          pa_createdBy = None, pa_updatedAt = None\<rparr> sampleStore))) = [''a1'', ''a2'', ''gen'']"
    by (simp add: adaptationStorage_create_def adaptationStorage_getAll_def getFromStorage_def
        setToStorage_def generateId_def nowISO_def Let_def sample_defs)
  moreover have "fst (generateId sampleStore) = ''gen''"
    by (simp add: generateId_def sample_defs)
  ultimately show ?thesis
    by (simp add: create_ids succeeded_def acceptingRemote_def)
qed

text \<open>
  C2, as the code has it. In the two forms that write locally, \<open>handleSubmit\<close> of
  \<^verbatim>\<open>AdaptationForm\<close> and of the dual-write report form, a create whose remote call
  fails still succeeds: with a filled form whose date converts (to the ISO text \<open>d\<close>,
  which is never empty) no error is reported, \<^verbatim>\<open>onSuccess\<close> receives the created
  record, and the local collection is the former one followed by that record, which
  holds the submitted student id and field values and has the id \<^verbatim>\<open>generateId()\<close>
  returned. The two flows that do not write locally, \<open>handleSubmit\<close> of
  \<^verbatim>\<open>src/components/ReportForm.tsx\<close> and \<^verbatim>\<open>ApiStudentList.handleImport\<close>, report
  the failure of the remote create as an error and leave the store as it was. The
  store's \<open>create\<close> for students has no failing path: it appends a record with a
  generated id that holds every submitted field.
\<close>

theorem create_survives_remote_failure:
  "(fd_description fd \<noteq> [] \<and> fd_justification fd \<noteq> [] \<and> fd_date fd \<noteq> [] \<and>
    toISO (fd_date fd) = Some d \<and> d \<noteq> [] \<and>
    remote (POST (API_URL @ ''/adaptations'') (createBody fd d studentId)) = Inl err \<longrightarrow>
      (\<exists>out w' new.
         handleSubmit toISO remote studentId None fd w = (out, w') \<and>
         sub_error out = [] \<and> sub_onSuccess out = Some (Some new) \<and> sub_closed out \<and>
         sub_toasts out = [Success ''Adaptacao registrada localmente (offline)''] \<and>
         adaptationStorage_getAll w' = adaptationStorage_getAll w @ [new] \<and>
         a_id new = fst (generateId w) \<and> a_studentId new = studentId \<and>
         a_description new = fd_description fd \<and>
         a_justification new = fd_justification fd \<and> a_date new = d)) \<and>
   (rf_subject rf \<noteq> [] \<and> rf_description rf \<noteq> [] \<and> rf_date rf \<noteq> [] \<and>
    toISO (rf_date rf) = Some d \<and> d \<noteq> [] \<and>
    remote (POST (API_URL @ ''/reports'') (reportPayload rf d studentId)) = Inl err \<longrightarrow>
      (\<exists>out w' new.
         ReportForm_handleSubmit_dualWrite toISO remote studentId None rf w = (out, w') \<and>
         out_error out = [] \<and> out_onSuccess out = Some (Some new) \<and> out_closed out \<and>
         out_toasts out = [Success ''Relato registrado localmente (offline)''] \<and>
         reportStorage_getAll w' = reportStorage_getAll w @ [new] \<and>
         r_id new = fst (generateId w) \<and> r_studentId new = studentId \<and>
         r_subject new = rf_subject rf \<and> r_result new = rf_result rf \<and>
         r_description new = rf_description rf \<and> r_date new = d)) \<and>
   (rf_subject rf \<noteq> [] \<and> rf_description rf \<noteq> [] \<and> rf_date rf \<noteq> [] \<and>
    toISO (rf_date rf) = Some d \<and>
    remote (POST (API_URL @ ''/reports'') (reportPayload rf d studentId)) = Inl err \<longrightarrow>
      ReportForm_handleSubmit toISO remote studentId None rf w =
        (\<lparr>out_error = (if message err = [] then ''Erro ao salvar relato'' else message err),
          out_toasts =
            [Failure (if message err = [] then ''Erro ao salvar relato'' else message err)],
          out_onSuccess = None, out_closed = False,
          out_requests = [POST (API_URL @ ''/reports'') (reportPayload rf d studentId)]\<rparr>,
         w)) \<and>
   (listed \<noteq> JNull \<and>
    remote (POST (API_URL @ ''/students'') (studentPartial toString listed)) = Inl err \<longrightarrow>
      handleImport toString remote listed w =
        (\<lparr>imp_thrown = None,
          imp_toasts =
            [Failure (if message err = [] then ''Erro ao importar estudante''
                      else message err)],
          imp_onImport = False,
          imp_requests =
            [POST (API_URL @ ''/students'') (studentPartial toString listed)]\<rparr>,
         w)) \<and>
   (\<exists>new w'.
      studentStorage_create sd w = (new, w') \<and>
      studentStorage_getAll w' = studentStorage_getAll w @ [new] \<and>
      s_id new = fst (generateId w) \<and>
      holds (ps_name sd) (s_name new) \<and> holds (ps_course sd) (s_course new) \<and>
      holds (ps_class sd) (s_class new) \<and> holds (ps_birthDate sd) (s_birthDate new) \<and>
      holds (ps_registrationNumber sd) (s_registrationNumber new) \<and>
      s_guardianName new = ps_guardianName sd \<and>
      s_guardianContact new = ps_guardianContact sd)"
proof (intro conjI impI)
  assume "fd_description fd \<noteq> [] \<and> fd_justification fd \<noteq> [] \<and> fd_date fd \<noteq> [] \<and>
    toISO (fd_date fd) = Some d \<and> d \<noteq> [] \<and>
    remote (POST (API_URL @ ''/adaptations'') (createBody fd d studentId)) = Inl err"
  then show "\<exists>out w' new.
         handleSubmit toISO remote studentId None fd w = (out, w') \<and>
         sub_error out = [] \<and> sub_onSuccess out = Some (Some new) \<and> sub_closed out \<and>
         sub_toasts out = [Success ''Adaptacao registrada localmente (offline)''] \<and>
         adaptationStorage_getAll w' = adaptationStorage_getAll w @ [new] \<and>
         a_id new = fst (generateId w) \<and> a_studentId new = studentId \<and>
         a_description new = fd_description fd \<and>
         a_justification new = fd_justification fd \<and> a_date new = d"
    by (simp add: handleSubmit_def api_createAdaptation_def apiFetch_def createBody_def
        succeeded_def adaptationStorage_create_def generateId_def nowISO_def Let_def
        setToStorage_def getFromStorage_def
        adaptationStorage_getAll_def [of "_\<lparr>adaptations_item := _\<rparr>"])
next
  assume "rf_subject rf \<noteq> [] \<and> rf_description rf \<noteq> [] \<and> rf_date rf \<noteq> [] \<and>
    toISO (rf_date rf) = Some d \<and> d \<noteq> [] \<and>
    remote (POST (API_URL @ ''/reports'') (reportPayload rf d studentId)) = Inl err"
  then show "\<exists>out w' new.
         ReportForm_handleSubmit_dualWrite toISO remote studentId None rf w = (out, w') \<and>
         out_error out = [] \<and> out_onSuccess out = Some (Some new) \<and> out_closed out \<and>
         out_toasts out = [Success ''Relato registrado localmente (offline)''] \<and>
         reportStorage_getAll w' = reportStorage_getAll w @ [new] \<and>
         r_id new = fst (generateId w) \<and> r_studentId new = studentId \<and>
         r_subject new = rf_subject rf \<and> r_result new = rf_result rf \<and>
         r_description new = rf_description rf \<and> r_date new = d"
    by (simp add: ReportForm_handleSubmit_dualWrite_def api_createReport_def apiFetch_def
        reportSucceeded_def reportStorage_create_def generateId_def nowISO_def Let_def
        setToStorage_def getFromStorage_def
        reportStorage_getAll_def [of "_\<lparr>reports_item := _\<rparr>"])
next
  assume "rf_subject rf \<noteq> [] \<and> rf_description rf \<noteq> [] \<and> rf_date rf \<noteq> [] \<and>
    toISO (rf_date rf) = Some d \<and>
    remote (POST (API_URL @ ''/reports'') (reportPayload rf d studentId)) = Inl err"
  then show "ReportForm_handleSubmit toISO remote studentId None rf w =
        (\<lparr>out_error = (if message err = [] then ''Erro ao salvar relato'' else message err),
          out_toasts =
            [Failure (if message err = [] then ''Erro ao salvar relato'' else message err)],
          out_onSuccess = None, out_closed = False,
          out_requests = [POST (API_URL @ ''/reports'') (reportPayload rf d studentId)]\<rparr>,
         w)"
    by (simp add: ReportForm_handleSubmit_def api_createReport_def apiFetch_def
        reportFailed_def Let_def)
next
  assume "listed \<noteq> JNull \<and>
    remote (POST (API_URL @ ''/students'') (studentPartial toString listed)) = Inl err"
  then show "handleImport toString remote listed w =
        (\<lparr>imp_thrown = None,
          imp_toasts =
            [Failure (if message err = [] then ''Erro ao importar estudante''
                      else message err)],
          imp_onImport = False,
          imp_requests =
            [POST (API_URL @ ''/students'') (studentPartial toString listed)]\<rparr>,
         w)"
    by (simp add: handleImport_def api_createStudent_def apiFetch_def)
next
  show "\<exists>new w'.
      studentStorage_create sd w = (new, w') \<and>
      studentStorage_getAll w' = studentStorage_getAll w @ [new] \<and>
      s_id new = fst (generateId w) \<and>
      holds (ps_name sd) (s_name new) \<and> holds (ps_course sd) (s_course new) \<and>
      holds (ps_class sd) (s_class new) \<and> holds (ps_birthDate sd) (s_birthDate new) \<and>
      holds (ps_registrationNumber sd) (s_registrationNumber new) \<and>
      s_guardianName new = ps_guardianName sd \<and>
      s_guardianContact new = ps_guardianContact sd"
    by (simp add: studentStorage_create_def generateId_def nowISO_def Let_def
        setToStorage_def getFromStorage_def holds_def split: option.splits
        add: studentStorage_getAll_def [of "_\<lparr>students_item := _\<rparr>"])
qed

text \<open>
  C2 does not hold for every creation: with the remote service offline, the remote-only
  report form shows the error, does not call \<^verbatim>\<open>onSuccess\<close> and stores no report, and
  the student import shows the error and stores no student.
\<close>

theorem remote_only_create_counterexample:
  "offlineRemote (POST (API_URL @ ''/reports'')
      (reportPayload filledReport ''2024-03-05T00:00:00.000Z'' ''s1'')) =
     Inl (TypeError ''Failed to fetch'') \<and>
   out_error (fst (ReportForm_handleSubmit isoMidnight offlineRemote ''s1'' None filledReport
      sampleStore)) = ''Failed to fetch'' \<and>
   out_onSuccess (fst (ReportForm_handleSubmit isoMidnight offlineRemote ''s1'' None filledReport
      sampleStore)) = None \<and>
   reportStorage_getAll (snd (ReportForm_handleSubmit isoMidnight offlineRemote ''s1'' None
      filledReport sampleStore)) = reportStorage_getAll sampleStore \<and>
   reportStorage_getAll sampleStore = [mathReport] \<and>
   offlineRemote (POST (API_URL @ ''/students'') (studentPartial (\<lambda>v. ''77'') listedStudent)) =
     Inl (TypeError ''Failed to fetch'') \<and>
   imp_toasts (fst (handleImport (\<lambda>v. ''77'') offlineRemote listedStudent sampleStore)) =
     [Failure ''Failed to fetch''] \<and>
   studentStorage_getAll (snd (handleImport (\<lambda>v. ''77'') offlineRemote listedStudent
      sampleStore)) = [ana]"
  by (simp add: ReportForm_handleSubmit_def api_createReport_def api_createStudent_def
      apiFetch_def reportFailed_def handleImport_def offlineRemote_def filledReport_def
      isoMidnight_def listedStudent_def reportStorage_getAll_def studentStorage_getAll_def
      getFromStorage_def sampleStore_def Let_def)

theorem create_survives_remote_failure_witness:
  "(fd_description oralExam \<noteq> [] \<and> fd_justification oralExam \<noteq> [] \<and> fd_date oralExam \<noteq> [] \<and>
    isoMidnight (fd_date oralExam) = Some ''2024-03-05T00:00:00.000Z'' \<and>
    ''2024-03-05T00:00:00.000Z'' \<noteq> [] \<and>
    offlineRemote (POST (API_URL @ ''/adaptations'')
      (createBody oralExam ''2024-03-05T00:00:00.000Z'' ''s1'')) =
      Inl (TypeError ''Failed to fetch'')) \<and>
   (\<exists>out w' new.
      handleSubmit isoMidnight offlineRemote ''s1'' None oralExam sampleStore = (out, w') \<and>
      sub_error out = [] \<and> sub_onSuccess out = Some (Some new) \<and>
      adaptationStorage_getAll w' = [extraTime, otherAdaptation, new] \<and>
      a_id new = ''gen'' \<and> a_studentId new = ''s1'' \<and> a_description new = ''Prova oral'' \<and>
      a_justification new = ''Parecer pedagogico'' \<and>
      a_date new = ''2024-03-05T00:00:00.000Z'') \<and>
   (rf_subject filledReport \<noteq> [] \<and> rf_description filledReport \<noteq> [] \<and>
    rf_date filledReport \<noteq> [] \<and>
    isoMidnight (rf_date filledReport) = Some ''2024-03-05T00:00:00.000Z'' \<and>
    offlineRemote (POST (API_URL @ ''/reports'')
      (reportPayload filledReport ''2024-03-05T00:00:00.000Z'' ''s1'')) =
      Inl (TypeError ''Failed to fetch'')) \<and>
   (\<exists>out w' new.
      ReportForm_handleSubmit_dualWrite isoMidnight offlineRemote ''s1'' None filledReport
        sampleStore = (out, w') \<and>
      out_error out = [] \<and> out_onSuccess out = Some (Some new) \<and>
      reportStorage_getAll w' = [mathReport, new] \<and>
      r_id new = ''gen'' \<and> r_studentId new = ''s1'' \<and> r_subject new = ''Historia'' \<and>
      r_result new = positivo \<and> r_description new = ''Boa participacao'' \<and>
      r_date new = ''2024-03-05T00:00:00.000Z'') \<and>
   out_error (fst (ReportForm_handleSubmit isoMidnight offlineRemote ''s1'' None filledReport
      sampleStore)) = ''Failed to fetch'' \<and>
   snd (ReportForm_handleSubmit isoMidnight offlineRemote ''s1'' None filledReport sampleStore) =
     sampleStore \<and>
   (listedStudent \<noteq> JNull \<and>
    offlineRemote (POST (API_URL @ ''/students'') (studentPartial (\<lambda>v. ''77'') listedStudent)) =
      Inl (TypeError ''Failed to fetch'')) \<and>
   imp_toasts (fst (handleImport (\<lambda>v. ''77'') offlineRemote listedStudent sampleStore)) =
     [Failure ''Failed to fetch''] \<and>
   snd (handleImport (\<lambda>v. ''77'') offlineRemote listedStudent sampleStore) = sampleStore"
proof -
  have a: "fd_description oralExam \<noteq> [] \<and> fd_justification oralExam \<noteq> [] \<and>
    fd_date oralExam \<noteq> [] \<and>
    isoMidnight (fd_date oralExam) = Some ''2024-03-05T00:00:00.000Z'' \<and>
    ''2024-03-05T00:00:00.000Z'' \<noteq> [] \<and>
    offlineRemote (POST (API_URL @ ''/adaptations'')
      (createBody oralExam ''2024-03-05T00:00:00.000Z'' ''s1'')) =
      Inl (TypeError ''Failed to fetch'')"
    by (simp add: oralExam_def isoMidnight_def offlineRemote_def)
  have r: "rf_subject filledReport \<noteq> [] \<and> rf_description filledReport \<noteq> [] \<and>
    rf_date filledReport \<noteq> [] \<and>
    isoMidnight (rf_date filledReport) = Some ''2024-03-05T00:00:00.000Z'' \<and>
    offlineRemote (POST (API_URL @ ''/reports'')
      (reportPayload filledReport ''2024-03-05T00:00:00.000Z'' ''s1'')) =
      Inl (TypeError ''Failed to fetch'')"
    by (simp add: filledReport_def isoMidnight_def offlineRemote_def)
  have l: "listedStudent \<noteq> JNull \<and>
    offlineRemote (POST (API_URL @ ''/students'') (studentPartial (\<lambda>v. ''77'') listedStudent)) =
      Inl (TypeError ''Failed to fetch'')"
    by (simp add: listedStudent_def offlineRemote_def)
  have s: "adaptationStorage_getAll sampleStore = [extraTime, otherAdaptation]"
    "reportStorage_getAll sampleStore = [mathReport]"
    "fst (generateId sampleStore) = ''gen''"
    by (simp_all add: adaptationStorage_getAll_def reportStorage_getAll_def getFromStorage_def
        generateId_def sampleStore_def emptyStore_def)
  note T = create_survives_remote_failure [where fd = oralExam and rf = filledReport
      and toISO = isoMidnight and d = "''2024-03-05T00:00:00.000Z''"
      and remote = offlineRemote and studentId = "''s1''"
      and err = "TypeError ''Failed to fetch''" and w = sampleStore
      and listed = listedStudent and toString = "\<lambda>v. ''77''" and sd = renaming]
  from T a have 1: "\<exists>out w' new.
      handleSubmit isoMidnight offlineRemote ''s1'' None oralExam sampleStore = (out, w') \<and>
      sub_error out = [] \<and> sub_onSuccess out = Some (Some new) \<and>
      adaptationStorage_getAll w' = [extraTime, otherAdaptation, new] \<and>
      a_id new = ''gen'' \<and> a_studentId new = ''s1'' \<and> a_description new = ''Prova oral'' \<and>
      a_justification new = ''Parecer pedagogico'' \<and>
      a_date new = ''2024-03-05T00:00:00.000Z''"
    by (auto simp: s oralExam_def)
  from T r have 2: "\<exists>out w' new.
      ReportForm_handleSubmit_dualWrite isoMidnight offlineRemote ''s1'' None filledReport
        sampleStore = (out, w') \<and>
      out_error out = [] \<and> out_onSuccess out = Some (Some new) \<and>
      reportStorage_getAll w' = [mathReport, new] \<and>
      r_id new = ''gen'' \<and> r_studentId new = ''s1'' \<and> r_subject new = ''Historia'' \<and>
      r_result new = positivo \<and> r_description new = ''Boa participacao'' \<and>
      r_date new = ''2024-03-05T00:00:00.000Z''"
    by (auto simp: s filledReport_def)
  from T r have 3: "out_error (fst (ReportForm_handleSubmit isoMidnight offlineRemote ''s1'' None
      filledReport sampleStore)) = ''Failed to fetch'' \<and>
    snd (ReportForm_handleSubmit isoMidnight offlineRemote ''s1'' None filledReport sampleStore) =
     sampleStore"
    by simp
  from T l have 4: "imp_toasts (fst (handleImport (\<lambda>v. ''77'') offlineRemote listedStudent
      sampleStore)) = [Failure ''Failed to fetch''] \<and>
    snd (handleImport (\<lambda>v. ''77'') offlineRemote listedStudent sampleStore) = sampleStore"
    by simp
  from a r l 1 2 3 4 show ?thesis
    by blast
qed

section \<open>Sign-in falls back to the local credentials\<close>

lemma initializeDefaultUsers_frame:
  "token_item (initializeDefaultUsers w) = token_item w \<and>
   user_item (initializeDefaultUsers w) = user_item w \<and>
   current_user_item (initializeDefaultUsers w) = current_user_item w"
  by (simp add: initializeDefaultUsers_def Let_def generateId_def)

text \<open>
  C7. \<open>signIn\<close> first seeds the default users when there are none. When neither remote
  stage produces a session (in particular when every endpoint is unreachable) and the
  pair is in the credential table and a user with that email is stored, \<open>signIn\<close>
  succeeds, makes that user the current one and stores the token \<^verbatim>\<open>mock-token-\<close>
  followed by the user's id, together with the user. When the pair is not in the table
  \<open>signIn\<close> fails with the not-found error and stores no session. For a pair of the
  table the user is stored whenever the users were empty before the call.
\<close>

theorem local_fallback_signs_in:
  "((email, password) \<in> set validCredentials \<and>
    sessionStageFails remote \<and> lookupStageFails remote \<and>
    find (\<lambda>u. u_email u = email) (getLocalUsers (initializeDefaultUsers w)) = Some u \<longrightarrow>
      (\<exists>w'. signIn remote email password (w, ctx) = (None, w', ctx\<lparr>auth_user := Some u\<rparr>) \<and>
         token_item w' = Some (''mock-token-'' @ u_id u) \<and>
         user_item w' = Some (Stringified u) \<and>
         current_user_item w' = Some (Stringified (Some u)))) \<and>
   ((email, password) \<notin> set validCredentials \<and>
    sessionStageFails remote \<and> lookupStageFails remote \<longrightarrow>
      signIn remote email password (w, ctx) = (Some notFound, initializeDefaultUsers w, ctx) \<and>
      token_item (initializeDefaultUsers w) = token_item w \<and>
      user_item (initializeDefaultUsers w) = user_item w) \<and>
   sessionStageFails unreachable \<and> lookupStageFails unreachable \<and>
   ((email, password) \<in> set validCredentials \<and> getLocalUsers w = [] \<longrightarrow>
      (\<exists>u. find (\<lambda>u. u_email u = email) (getLocalUsers (initializeDefaultUsers w)) = Some u))"
proof (intro conjI impI)
  assume a: "(email, password) \<in> set validCredentials \<and>
    sessionStageFails remote \<and> lookupStageFails remote \<and>
    find (\<lambda>u. u_email u = email) (getLocalUsers (initializeDefaultUsers w)) = Some u"
  then have "list_ex (\<lambda>cred. fst cred = email \<and> snd cred = password) validCredentials"
    by (force simp: list_ex_iff)
  with a show "\<exists>w'. signIn remote email password (w, ctx) =
        (None, w', ctx\<lparr>auth_user := Some u\<rparr>) \<and>
      token_item w' = Some (''mock-token-'' @ u_id u) \<and>
      user_item w' = Some (Stringified u) \<and>
      current_user_item w' = Some (Stringified (Some u))"
    by (auto simp: signIn_def Let_def authStorage_signIn_def getLocalUsers_def setToStorage_def
        sessionStageFails_def lookupStageFails_def split: sum.splits option.splits)
next
  assume a: "(email, password) \<notin> set validCredentials \<and>
    sessionStageFails remote \<and> lookupStageFails remote"
  then have "\<not> list_ex (\<lambda>cred. fst cred = email \<and> snd cred = password) validCredentials"
    by (force simp: list_ex_iff)
  with a show "signIn remote email password (w, ctx) =
      (Some notFound, initializeDefaultUsers w, ctx)"
    by (auto simp: signIn_def Let_def authStorage_signIn_def
        sessionStageFails_def lookupStageFails_def split: sum.splits option.splits)
next
  show "token_item (initializeDefaultUsers w) = token_item w"
    "user_item (initializeDefaultUsers w) = user_item w"
    by (simp_all add: initializeDefaultUsers_frame)
next
  show "sessionStageFails unreachable" "lookupStageFails unreachable"
    by (simp_all add: sessionStageFails_def lookupStageFails_def unreachable_def)
next
  assume "(email, password) \<in> set validCredentials \<and> getLocalUsers w = []"
  then show "\<exists>u. find (\<lambda>u. u_email u = email) (getLocalUsers (initializeDefaultUsers w)) = Some u"
    by (auto simp: validCredentials_def initializeDefaultUsers_def getLocalUsers_def Let_def
        generateId_def setToStorage_def getFromStorage_def)
qed

theorem local_fallback_signs_in_witness:
  "(''coordenador@escola.com'', ''coord123'') \<in> set validCredentials \<and>
   sessionStageFails unreachable \<and> lookupStageFails unreachable \<and>
   find (\<lambda>u. u_email u = ''coordenador@escola.com'')
     (getLocalUsers (initializeDefaultUsers sampleStore)) = Some maria \<and>
   (\<exists>w'. signIn unreachable ''coordenador@escola.com'' ''coord123'' (sampleStore, signedOut) =
      (None, w', signedOut\<lparr>auth_user := Some maria\<rparr>) \<and>
      token_item w' = Some ''mock-token-u1'' \<and> user_item w' = Some (Stringified maria)) \<and>
   (''professor@escola.com'', ''coord123'') \<notin> set validCredentials \<and>
   fst (signIn unreachable ''professor@escola.com'' ''coord123'' (sampleStore, signedOut)) =
     Some notFound \<and>
   (''professor@escola.com'', ''prof123'') \<in> set validCredentials \<and>
   getLocalUsers emptyStore = [] \<and>
   (\<exists>u. find (\<lambda>u. u_email u = ''professor@escola.com'')
      (getLocalUsers (initializeDefaultUsers emptyStore)) = Some u)"
proof -
  have c: "(''coordenador@escola.com'', ''coord123'') \<in> set validCredentials"
    "(''professor@escola.com'', ''coord123'') \<notin> set validCredentials"
    "(''professor@escola.com'', ''prof123'') \<in> set validCredentials"
    by (simp_all add: validCredentials_def)
  have f: "sessionStageFails unreachable" "lookupStageFails unreachable"
    by (simp_all add: sessionStageFails_def lookupStageFails_def unreachable_def)
  have u: "find (\<lambda>u. u_email u = ''coordenador@escola.com'')
     (getLocalUsers (initializeDefaultUsers sampleStore)) = Some maria"
    by (simp add: initializeDefaultUsers_def getLocalUsers_def getFromStorage_def Let_def
        sample_defs)
  have e: "getLocalUsers emptyStore = []"
    by (simp add: getLocalUsers_def getFromStorage_def emptyStore_def)
  from local_fallback_signs_in [of "''coordenador@escola.com''" "''coord123''" unreachable
      sampleStore maria signedOut] c f u
  have 1: "\<exists>w'. signIn unreachable ''coordenador@escola.com'' ''coord123'' (sampleStore, signedOut) =
      (None, w', signedOut\<lparr>auth_user := Some maria\<rparr>) \<and>
      token_item w' = Some ''mock-token-u1'' \<and> user_item w' = Some (Stringified maria)"
    by (auto simp: maria_def)
  from local_fallback_signs_in [of "''professor@escola.com''" "''coord123''" unreachable
      sampleStore maria signedOut] c f
  have 2: "fst (signIn unreachable ''professor@escola.com'' ''coord123'' (sampleStore, signedOut)) =
     Some notFound"
    by simp
  from local_fallback_signs_in [of "''professor@escola.com''" "''prof123''" unreachable
      emptyStore maria signedOut] c e
  have 3: "\<exists>u. find (\<lambda>u. u_email u = ''professor@escola.com'')
      (getLocalUsers (initializeDefaultUsers emptyStore)) = Some u"
    by blast
  from c f u e 1 2 3 show ?thesis
    by (intro conjI)
qed

end
